theory Spec2Isabelle
  imports Main "HOL-Library.Multiset" "HOL-Library.Option_ord"
begin

section \<open>ChiveSave: artifact version registry\<close>

text \<open>
  A shallow embedding of the version lifecycle of the ChiveSave backend. The repository
  holds two implementations side by side: the flat modules (\<^verbatim>\<open>main.py\<close>,
  \<^verbatim>\<open>crud.py\<close>, \<^verbatim>\<open>users.py\<close>) and the package under \<^verbatim>\<open>app/\<close>.
  Both are modelled; a definition from the flat modules carries the prefix \<open>main_\<close> or
  \<open>crud_\<close>, one from the package the name of its module where the two would clash.

  Strings are byte strings (\<open>char list\<close>), file contents too. Paths are POSIX paths,
  relative to the working directory of the server process, written as the code builds
  them: one slash between components, no \<^verbatim>\<open>.\<close> or \<^verbatim>\<open>..\<close>.
\<close>

subsection \<open>Path functions of the Python standard library (posixpath)\<close>

text \<open>\<^verbatim>\<open>str.rfind\<close>: the highest index of the character, or -1.\<close>

definition rfind :: "string \<Rightarrow> char \<Rightarrow> int" where
  "rfind p c =
     (case filter (\<lambda>i. p ! i = c) (rev [0..<length p]) of
        [] \<Rightarrow> - 1
      | i # _ \<Rightarrow> int i)"

text \<open>
  \<^verbatim>\<open>os.path.join(a, b)\<close> for two arguments:
  \<^verbatim>\<open>
      if b.startswith(sep) or not path: path = b
      elif path.endswith(sep):          path += b
      else:                             path += sep + b
  \<close>
\<close>

definition os_path_join :: "string \<Rightarrow> string \<Rightarrow> string" where
  "os_path_join a b =
     (if take 1 b = ''/'' \<or> a = [] then b
      else if last a = CHR ''/'' then a @ b
      else a @ ''/'' @ b)"

text \<open>\<^verbatim>\<open>os.path.basename(p)\<close>: \<^verbatim>\<open>i = p.rfind(sep) + 1; return p[i:]\<close>.\<close>

definition os_path_basename :: "string \<Rightarrow> string" where
  "os_path_basename p = drop (nat (rfind p (CHR ''/'') + 1)) p"

text \<open>
  \<^verbatim>\<open>os.path.splitext(p)\<close> (genericpath._splitext): the extension starts at the last
  dot of the last path component, unless that component has only dots before it.
  \<^verbatim>\<open>
      sepIndex = p.rfind(sep)
      dotIndex = p.rfind(extsep)
      if dotIndex > sepIndex:
          filenameIndex = sepIndex + 1
          while filenameIndex < dotIndex:
              if p[filenameIndex:filenameIndex+1] != extsep:
                  return p[:dotIndex], p[dotIndex:]
              filenameIndex += 1
      return p, p[:0]
  \<close>
\<close>

definition os_path_splitext :: "string \<Rightarrow> string \<times> string" where
  "os_path_splitext p =
     (let sepIndex = rfind p (CHR ''/'');
          dotIndex = rfind p (CHR ''.'')
      in if dotIndex > sepIndex \<and>
            list_ex (\<lambda>i. p ! i \<noteq> CHR ''.'') [nat (sepIndex + 1)..<nat dotIndex]
         then (take (nat dotIndex) p, drop (nat dotIndex) p)
         else (p, []))"

text \<open>
  \<^verbatim>\<open>os.path.dirname(p)\<close>:
  \<^verbatim>\<open>
      i = p.rfind(sep) + 1
      head = p[:i]
      if head and head != sep*len(head): head = head.rstrip(sep)
      return head
  \<close>
\<close>

definition os_path_dirname :: "string \<Rightarrow> string" where
  "os_path_dirname p =
     (let head = take (nat (rfind p (CHR ''/'') + 1)) p
      in if head \<noteq> [] \<and> \<not> list_all (\<lambda>c. c = CHR ''/'') head
         then rev (dropWhile (\<lambda>c. c = CHR ''/'') (rev head))
         else head)"

subsection \<open>Data model\<close>

text \<open>A JSON value as \<^verbatim>\<open>json.loads\<close> returns it; a float is mantissa and binary exponent.\<close>

datatype json =
    JNull
  | JBool bool
  | JInt int
  | JFloat int int
  | JString string
  | JArray "json list"
  | JObject "(string \<times> json) list"

text \<open>\<^verbatim>\<open>models.VersionCreate\<close> and \<^verbatim>\<open>models.Version\<close> (the same in \<^verbatim>\<open>app/models/version.py\<close>).\<close>

record version_create =
  vc_name :: string
  vc_description :: "string option"
  vc_metadata :: "(string \<times> json) list option"

record version =
  v_id :: int
  v_name :: string
  v_description :: "string option"
  v_artifact_path :: string
  v_created_at :: int
  v_metadata :: "(string \<times> json) list option"

text \<open>
  A row of the table \<^verbatim>\<open>versions\<close> as the driver hands it over:
  \<^verbatim>\<open>id SERIAL PRIMARY KEY, name VARCHAR(255) NOT NULL UNIQUE, description TEXT,
  artifact_path VARCHAR(255) NOT NULL,
  created_at TIMESTAMP WITH TIME ZONE DEFAULT CURRENT_TIMESTAMP, metadata JSONB\<close>.
  \<^verbatim>\<open>created_at\<close> may be null. No codec is set for \<^verbatim>\<open>jsonb\<close>, so asyncpg gives the
  metadata as the text of the document, or \<^verbatim>\<open>None\<close>.
\<close>

record version_row =
  r_id :: int
  r_name :: string
  r_description :: "string option"
  r_artifact_path :: string
  r_created_at :: "int option"
  r_metadata :: "string option"

text \<open>Rows of the \<^verbatim>\<open>users\<close> table, read as \<^verbatim>\<open>UserInDB\<close>.\<close>

record user_in_db =
  u_id :: int
  username :: string
  email :: "string option"
  hashed_password :: string
  disabled :: bool
  roles :: "string list"

text \<open>
  The file system: a path names a regular file with its bytes, or a directory. The two
  directories the modules create at import time (\<^verbatim>\<open>artifacts\<close>,
  \<^verbatim>\<open>current_active_artifact\<close>) exist throughout and have no entry of their own.
\<close>

datatype node = File string | Dir

type_synonym filesystem = "string \<rightharpoonup> node"

text \<open>
  What a request did to the two resources, in order (a ghost log): it opened a file for
  writing, or it called \<^verbatim>\<open>conn.fetchrow\<close> with the \<^verbatim>\<open>INSERT\<close>, for a name and an
  artifact path.
\<close>

datatype event = FileWrite string | LedgerInsert string string

record state =
  fs :: filesystem
  versions :: "version_row list"
  versions_id_seq :: int
  users :: "user_in_db list"
  trace :: "event list"

text \<open>The exceptions the code raises or meets.\<close>

datatype detail =
    InvalidMetadataJSON
  | VersionAlreadyExists string
  | DatabaseErrorDuringCreation
  | DatabaseErrorDuringRetrieval
  | DatabaseErrorDuringListing
  | DatabaseErrorFetchingUser
  | FailedToSaveArtifactFile
  | FailedToSaveVersion
  | VersionNotFound int
  | VersionNotFoundOrFailedToRestore int
  | FailedToRestoreArtifact
  | FailedToRestoreArtifactForVersion int
  | IncorrectUsernameOrPassword

datatype exn =
    HTTPException nat detail
  | NameError string
  | AttributeError string
  | TypeError
  | ValueError
  | RecursionError
  | JSONDecodeError
  | ValidationError
  | OSError
  | DataError
  | UniqueViolationError
  | StringDataRightTruncationError
  | PostgresError

text \<open>
  The status of the response: an \<^verbatim>\<open>HTTPException\<close> carries its own, any other exception
  that leaves an endpoint is answered with 500 by the framework.
\<close>

fun status_of :: "exn \<Rightarrow> nat" where
  "status_of (HTTPException code _) = code"
| "status_of _ = 500"

definition ARTIFACTS_DIR :: string where
  "ARTIFACTS_DIR = ''artifacts''"

definition CURRENT_ACTIVE_ARTIFACT_DIR :: string where
  "CURRENT_ACTIVE_ARTIFACT_DIR = ''current_active_artifact''"

subsection \<open>What the surroundings decide\<close>

text \<open>
  A request meets things the code does not control: the random token, the clock of the
  database, whether the disk and the database answer. They are inputs of the model.
  \<^verbatim>\<open>WriteFails\<close> carries the bytes that reached the file before the failure.
\<close>

datatype io_outcome = IoOk | OpenFails | WriteFails string

record save_env =
  uuid4 :: string
  now :: int
  file_io :: io_outcome
  db_fails :: bool

text \<open>The multipart request of \<^verbatim>\<open>POST /v1/versions/save\<close>.\<close>

record save_request =
  req_name :: string
  req_filename :: "string option"
  req_content :: string
  req_description :: "string option"
  req_metadata :: "string option"

subsection \<open>Artifact store: saving\<close>

text \<open>
  What is a directory: the working directory (the empty \<^verbatim>\<open>dirname\<close>), the root, the two
  directories of the modules, and the directories of the file system. A file can be opened
  for writing where the path has a last component, names no directory, and lies in a
  directory.
\<close>

definition is_directory :: "filesystem \<Rightarrow> string \<Rightarrow> bool" where
  "is_directory files d =
     (d = [] \<or> d = ''/'' \<or> d = ARTIFACTS_DIR \<or> d = CURRENT_ACTIVE_ARTIFACT_DIR \<or>
      files d = Some Dir)"

definition can_open_for_writing :: "filesystem \<Rightarrow> string \<Rightarrow> bool" where
  "can_open_for_writing files p =
     (os_path_basename p \<noteq> [] \<and> \<not> is_directory files p \<and>
      is_directory files (os_path_dirname p))"

text \<open>
  \<^verbatim>\<open>async with aiofiles.open(file_path, "wb") as buffer: await buffer.write(await file.read())\<close>.
  Opening creates or truncates the file.
\<close>

definition write_file :: "io_outcome \<Rightarrow> string \<Rightarrow> string \<Rightarrow> state \<Rightarrow> (exn + unit) \<times> state" where
  "write_file io file_path content st =
     (if \<not> can_open_for_writing (fs st) file_path then (Inl OSError, st)
      else case io of
          OpenFails \<Rightarrow> (Inl OSError, st)
        | WriteFails partial \<Rightarrow>
            (Inl OSError,
             st\<lparr>fs := (fs st)(file_path \<mapsto> File partial),
                trace := trace st @ [FileWrite file_path]\<rparr>)
        | IoOk \<Rightarrow>
            (Inr (),
             st\<lparr>fs := (fs st)(file_path \<mapsto> File content),
                trace := trace st @ [FileWrite file_path]\<rparr>))"

text \<open>\<^verbatim>\<open>app/services/artifact_storage.py\<close>, \<^verbatim>\<open>save_artifact_file\<close>.\<close>

definition save_artifact_file :: "save_env \<Rightarrow> string \<Rightarrow> string \<Rightarrow> state \<Rightarrow> (exn + string) \<times> state" where
  "save_artifact_file e content unique_filename st =
     (let file_path = os_path_join ARTIFACTS_DIR unique_filename
      in (case write_file (file_io e) file_path content st of
            (Inr _, st') \<Rightarrow> (Inr file_path, st')
          | (Inl _, st') \<Rightarrow> (Inl (HTTPException 500 FailedToSaveArtifactFile), st')))"

subsection \<open>Version ledger: the driver and the table\<close>

text \<open>
  The arguments asyncpg binds to a statement. For a parameter of type \<^verbatim>\<open>jsonb\<close>, with
  no codec set (none is, in \<^verbatim>\<open>database.py\<close> or \<^verbatim>\<open>app/db/connection.py\<close>), it takes
  \<^verbatim>\<open>None\<close> or a \<^verbatim>\<open>str\<close> and refuses anything else with \<^verbatim>\<open>DataError\<close> (expected str).
  Both \<^verbatim>\<open>create_version\<close> functions pass \<^verbatim>\<open>Json(version.metadata)\<close>, the wrapper of
  psycopg2. For a parameter of type \<^verbatim>\<open>int4\<close> it refuses an integer outside 32 bits.
\<close>

datatype jsonb_argument = PyNone | PyStr string | PsycopgJson "(string \<times> json) list option"

fun encode_jsonb :: "jsonb_argument \<Rightarrow> exn + string option" where
  "encode_jsonb PyNone = Inr None"
| "encode_jsonb (PyStr s) = Inr (Some s)"
| "encode_jsonb (PsycopgJson _) = Inl DataError"

definition encode_int4 :: "int \<Rightarrow> exn + int" where
  "encode_int4 i = (if - 2147483648 \<le> i \<and> i \<le> 2147483647 then Inr i else Inl DataError)"

text \<open>
  The statement \<^verbatim>\<open>INSERT INTO versions (name, description, artifact_path, metadata)
  VALUES ($1, $2, $3, $4::jsonb) RETURNING ...\<close> on the server. A value too long for its
  column is refused; the sequence hands out the next id, which must fit \<^verbatim>\<open>int4\<close>; a name
  already in the table violates the unique constraint. Rows are kept in the order of
  their insertion.
\<close>

definition insert_version ::
  "save_env \<Rightarrow> string \<Rightarrow> string option \<Rightarrow> string \<Rightarrow> string option \<Rightarrow> state
     \<Rightarrow> (exn + version_row) \<times> state" where
  "insert_version e nm descr path meta st =
     (if 255 < length nm \<or> 255 < length path then (Inl StringDataRightTruncationError, st)
      else
        let new_id = versions_id_seq st + 1;
            st1 = st\<lparr>versions_id_seq := new_id\<rparr>
        in if 2147483647 < new_id then (Inl PostgresError, st1)
           else if nm \<in> set (map r_name (versions st)) then (Inl UniqueViolationError, st1)
           else
             let row = \<lparr>r_id = new_id, r_name = nm, r_description = descr,
                        r_artifact_path = path, r_created_at = Some (now e),
                        r_metadata = meta\<rparr>
             in (Inr row, st1\<lparr>versions := versions st @ [row]\<rparr>))"

text \<open>
  \<^verbatim>\<open>await conn.fetchrow(INSERT ..., name, description, artifact_path, metadata)\<close>: the
  call, the statement prepared on the server, the arguments bound, the statement run.
\<close>

definition fetchrow_insert ::
  "save_env \<Rightarrow> string \<Rightarrow> string option \<Rightarrow> string \<Rightarrow> jsonb_argument \<Rightarrow> state
     \<Rightarrow> (exn + version_row) \<times> state" where
  "fetchrow_insert e nm descr path meta st =
     (let st1 = st\<lparr>trace := trace st @ [LedgerInsert nm path]\<rparr>
      in if db_fails e then (Inl PostgresError, st1)
         else (case encode_jsonb meta of
                 Inl err \<Rightarrow> (Inl err, st1)
               | Inr text \<Rightarrow> insert_version e nm descr path text st1))"

text \<open>
  \<^verbatim>\<open>Version(id=row['id'], ..., created_at=row['created_at'], metadata=row['metadata'])\<close>:
  the model validates \<^verbatim>\<open>created_at: datetime\<close> and
  \<^verbatim>\<open>metadata: Optional[Dict[str, Any]]\<close>. A null \<^verbatim>\<open>created_at\<close> fails, and so does a
  metadata that is a \<^verbatim>\<open>str\<close>.
\<close>

definition Version :: "version_row \<Rightarrow> exn + version" where
  "Version row =
     (case r_created_at row of
        None \<Rightarrow> Inl ValidationError
      | Some created \<Rightarrow>
          (case r_metadata row of
             Some _ \<Rightarrow> Inl ValidationError
           | None \<Rightarrow>
               Inr \<lparr>v_id = r_id row, v_name = r_name row, v_description = r_description row,
                    v_artifact_path = r_artifact_path row, v_created_at = created,
                    v_metadata = None\<rparr>))"

text \<open>
  The two \<^verbatim>\<open>except\<close> clauses of \<^verbatim>\<open>create_version\<close>: a unique violation becomes 409, any
  other exception 500. (The \<^verbatim>\<open>raise\<close> after \<^verbatim>\<open>if row:\<close> is never reached: a successful
  \<^verbatim>\<open>INSERT ... RETURNING\<close> returns its row.)
\<close>

fun create_version_error :: "string \<Rightarrow> exn \<Rightarrow> exn" where
  "create_version_error nm UniqueViolationError = HTTPException 409 (VersionAlreadyExists nm)"
| "create_version_error nm _ = HTTPException 500 DatabaseErrorDuringCreation"

text \<open>
  \<^verbatim>\<open>crud.py\<close>, \<^verbatim>\<open>create_version(conn, version, artifact_filename)\<close>, with
  \<^verbatim>\<open>artifact_path = os.path.join(ARTIFACTS_DIR, artifact_filename)\<close>.
\<close>

definition crud_create_version ::
  "save_env \<Rightarrow> version_create \<Rightarrow> string \<Rightarrow> state \<Rightarrow> (exn + version) \<times> state" where
  "crud_create_version e version artifact_filename st =
     (let artifact_path = os_path_join ARTIFACTS_DIR artifact_filename
      in (case fetchrow_insert e (vc_name version) (vc_description version) artifact_path
                 (PsycopgJson (vc_metadata version)) st of
            (Inl err, st') \<Rightarrow> (Inl (create_version_error (vc_name version) err), st')
          | (Inr row, st') \<Rightarrow>
              (case Version row of
                 Inl err \<Rightarrow> (Inl (create_version_error (vc_name version) err), st')
               | Inr created \<Rightarrow> (Inr created, st'))))"

text \<open>
  \<^verbatim>\<open>app/crud/versions.py\<close>,
  \<^verbatim>\<open>create_version(conn, version, artifact_filename, artifact_base_path)\<close>, with
  \<^verbatim>\<open>artifact_path = f"{artifact_base_path}/{artifact_filename}"\<close>.
\<close>

definition versions_create_version ::
  "save_env \<Rightarrow> version_create \<Rightarrow> string \<Rightarrow> string \<Rightarrow> state \<Rightarrow> (exn + version) \<times> state" where
  "versions_create_version e version artifact_filename artifact_base_path st =
     (let artifact_path = artifact_base_path @ ''/'' @ artifact_filename
      in (case fetchrow_insert e (vc_name version) (vc_description version) artifact_path
                 (PsycopgJson (vc_metadata version)) st of
            (Inl err, st') \<Rightarrow> (Inl (create_version_error (vc_name version) err), st')
          | (Inr row, st') \<Rightarrow>
              (case Version row of
                 Inl err \<Rightarrow> (Inl (create_version_error (vc_name version) err), st')
               | Inr created \<Rightarrow> (Inr created, st'))))"

subsection \<open>Version service: creating a version\<close>

text \<open>
  \<^verbatim>\<open>json.loads\<close> belongs to the standard library; the endpoints take it as a parameter
  \<open>json_loads\<close>, which returns the value or the exception raised: \<^verbatim>\<open>JSONDecodeError\<close>
  for a text that is no JSON, \<^verbatim>\<open>RecursionError\<close> for one nested too deep,
  \<^verbatim>\<open>ValueError\<close> for a number beyond the limit of integer conversion.
  \<^verbatim>\<open>
      parsed_metadata = None
      if metadata:
          try: parsed_metadata = json.loads(metadata)
          except json.JSONDecodeError:
              raise HTTPException(status_code=400, detail="Invalid metadata JSON format.")
  \<close>
  An empty text is falsy and skips the parser; an exception other than
  \<^verbatim>\<open>JSONDecodeError\<close> passes through. Python's \<^verbatim>\<open>None\<close> is \<open>JNull\<close>.
\<close>

fun metadata_error :: "exn \<Rightarrow> exn" where
  "metadata_error JSONDecodeError = HTTPException 400 InvalidMetadataJSON"
| "metadata_error err = err"

definition parse_metadata :: "(string \<Rightarrow> exn + json) \<Rightarrow> string option \<Rightarrow> exn + json" where
  "parse_metadata json_loads metadata =
     (case metadata of
        None \<Rightarrow> Inr JNull
      | Some text \<Rightarrow>
          if text = [] then Inr JNull
          else (case json_loads text of
                  Inl err \<Rightarrow> Inl (metadata_error err)
                | Inr parsed \<Rightarrow> Inr parsed))"

text \<open>
  The constructor \<^verbatim>\<open>VersionCreate(name=..., description=..., metadata=...)\<close> validates
  \<^verbatim>\<open>metadata: Optional[Dict[str, Any]]\<close>: a JSON object or \<^verbatim>\<open>None\<close>, nothing else.
  The name is a \<^verbatim>\<open>str\<close> with no further constraint.
\<close>

fun VersionCreate :: "string \<Rightarrow> string option \<Rightarrow> json \<Rightarrow> exn + version_create" where
  "VersionCreate nm descr JNull =
     Inr \<lparr>vc_name = nm, vc_description = descr, vc_metadata = None\<rparr>"
| "VersionCreate nm descr (JObject kvs) =
     Inr \<lparr>vc_name = nm, vc_description = descr, vc_metadata = Some kvs\<rparr>"
| "VersionCreate nm descr _ = Inl ValidationError"

text \<open>
  The handlers that close both endpoints:
  \<^verbatim>\<open>except HTTPException: raise\<close> and
  \<^verbatim>\<open>except Exception as e: raise HTTPException(status_code=500, ...)\<close>.
\<close>

fun save_version_handler :: "exn \<Rightarrow> exn" where
  "save_version_handler (HTTPException code d) = HTTPException code d"
| "save_version_handler _ = HTTPException 500 FailedToSaveVersion"

text \<open>
  \<^verbatim>\<open>app/api/v1/endpoints/versions.py\<close>, \<^verbatim>\<open>save_artifact_version\<close>: first the body
  of the \<^verbatim>\<open>try\<close>, then the endpoint. \<^verbatim>\<open>os.path.splitext\<close> of a missing file name is a
  \<^verbatim>\<open>TypeError\<close>.
\<close>

definition save_artifact_version_try ::
  "(string \<Rightarrow> exn + json) \<Rightarrow> save_env \<Rightarrow> save_request \<Rightarrow> state \<Rightarrow> (exn + version) \<times> state" where
  "save_artifact_version_try json_loads e r st =
     (case req_filename r of
        None \<Rightarrow> (Inl TypeError, st)
      | Some fname \<Rightarrow>
          let file_extension = snd (os_path_splitext fname);
              unique_filename = uuid4 e @ file_extension
          in (case save_artifact_file e (req_content r) unique_filename st of
                (Inl err, st1) \<Rightarrow> (Inl err, st1)
              | (Inr _, st1) \<Rightarrow>
                  (case parse_metadata json_loads (req_metadata r) of
                     Inl err \<Rightarrow> (Inl err, st1)
                   | Inr parsed_metadata \<Rightarrow>
                       (case VersionCreate (req_name r) (req_description r) parsed_metadata of
                          Inl err \<Rightarrow> (Inl err, st1)
                        | Inr version_create \<Rightarrow>
                            versions_create_version e version_create unique_filename
                              ARTIFACTS_DIR st1))))"

definition save_artifact_version ::
  "(string \<Rightarrow> exn + json) \<Rightarrow> save_env \<Rightarrow> save_request \<Rightarrow> state \<Rightarrow> (exn + version) \<times> state" where
  "save_artifact_version json_loads e r st =
     (case save_artifact_version_try json_loads e r st of
        (Inl err, st') \<Rightarrow> (Inl (save_version_handler err), st')
      | (Inr new_version, st') \<Rightarrow> (Inr new_version, st'))"

text \<open>
  \<^verbatim>\<open>main.py\<close>, \<^verbatim>\<open>save_artifact_version\<close>: the same steps, with the file written in the
  endpoint itself and \<^verbatim>\<open>crud.create_version\<close> for the ledger.
\<close>

definition main_save_artifact_version_try ::
  "(string \<Rightarrow> exn + json) \<Rightarrow> save_env \<Rightarrow> save_request \<Rightarrow> state \<Rightarrow> (exn + version) \<times> state" where
  "main_save_artifact_version_try json_loads e r st =
     (case req_filename r of
        None \<Rightarrow> (Inl TypeError, st)
      | Some fname \<Rightarrow>
          let file_extension = snd (os_path_splitext fname);
              unique_filename = uuid4 e @ file_extension;
              file_path = os_path_join ARTIFACTS_DIR unique_filename
          in (case write_file (file_io e) file_path (req_content r) st of
                (Inl err, st1) \<Rightarrow> (Inl err, st1)
              | (Inr _, st1) \<Rightarrow>
                  (case parse_metadata json_loads (req_metadata r) of
                     Inl err \<Rightarrow> (Inl err, st1)
                   | Inr parsed_metadata \<Rightarrow>
                       (case VersionCreate (req_name r) (req_description r) parsed_metadata of
                          Inl err \<Rightarrow> (Inl err, st1)
                        | Inr version_create \<Rightarrow>
                            crud_create_version e version_create unique_filename st1))))"

definition main_save_artifact_version ::
  "(string \<Rightarrow> exn + json) \<Rightarrow> save_env \<Rightarrow> save_request \<Rightarrow> state \<Rightarrow> (exn + version) \<times> state" where
  "main_save_artifact_version json_loads e r st =
     (case main_save_artifact_version_try json_loads e r st of
        (Inl err, st') \<Rightarrow> (Inl (save_version_handler err), st')
      | (Inr new_version, st') \<Rightarrow> (Inr new_version, st'))"

text \<open>
  The path of the archive file a request is given: the archive directory, the random
  token, the extension of the uploaded file's name.
\<close>

definition archive_path :: "save_env \<Rightarrow> string \<Rightarrow> string" where
  "archive_path e fname = ''artifacts/'' @ uuid4 e @ snd (os_path_splitext fname)"

text \<open>
  \<^verbatim>\<open>str(uuid.uuid4())\<close> is 36 characters, hexadecimal digits and hyphens. The model
  takes the token from the surroundings; this is what it looks like.
\<close>

definition uuid_text :: "string \<Rightarrow> bool" where
  "uuid_text u = (length u = 36 \<and> list_all (\<lambda>c. c \<in> set ''0123456789abcdef-'') u)"

text \<open>
  What \<^verbatim>\<open>json.loads\<close> does on the texts the examples below use: \<^verbatim>\<open>{}\<close> is the empty
  object, \<^verbatim>\<open>null\<close> is \<^verbatim>\<open>None\<close>; a hundred thousand opening brackets raise
  \<^verbatim>\<open>RecursionError\<close>; \<^verbatim>\<open>{not json\<close> and the empty text raise \<^verbatim>\<open>JSONDecodeError\<close>.
  The table is only ever read at these texts.
\<close>

definition deeply_nested :: string where
  "deeply_nested = replicate 100000 (CHR ''['')"

definition json_loads_examples :: "string \<Rightarrow> exn + json" where
  "json_loads_examples text =
     (if text = ''{}'' then Inr (JObject [])
      else if text = ''null'' then Inr JNull
      else if text = deeply_nested then Inl RecursionError
      else Inl JSONDecodeError)"

text \<open>
  A metadata text is accepted when it is absent or empty, or parses to an object or to
  \<^verbatim>\<open>null\<close>. An upload is accepted when the request reaches the ledger: the token is a
  UUID, the file has a name, the disk answers, the path is free for a file, the metadata
  is accepted.
\<close>

definition metadata_accepted :: "(string \<Rightarrow> exn + json) \<Rightarrow> string option \<Rightarrow> bool" where
  "metadata_accepted json_loads metadata =
     (case parse_metadata json_loads metadata of
        Inr JNull \<Rightarrow> True
      | Inr (JObject _) \<Rightarrow> True
      | _ \<Rightarrow> False)"

definition upload_written :: "save_env \<Rightarrow> save_request \<Rightarrow> string \<Rightarrow> state \<Rightarrow> bool" where
  "upload_written e r fname st =
     (uuid_text (uuid4 e) \<and> req_filename r = Some fname \<and> file_io e = IoOk \<and>
      fs st (archive_path e fname) \<noteq> Some Dir)"

definition upload_accepted ::
  "(string \<Rightarrow> exn + json) \<Rightarrow> save_env \<Rightarrow> save_request \<Rightarrow> string \<Rightarrow> state \<Rightarrow> bool" where
  "upload_accepted json_loads e r fname st =
     (upload_written e r fname st \<and> metadata_accepted json_loads (req_metadata r))"

text \<open>
  The state after a file has been written, and after the \<^verbatim>\<open>INSERT\<close> has then been
  called for it.
\<close>

definition uploaded :: "save_env \<Rightarrow> save_request \<Rightarrow> string \<Rightarrow> state \<Rightarrow> state" where
  "uploaded e r fname st =
     st\<lparr>fs := (fs st)(archive_path e fname \<mapsto> File (req_content r)),
        trace := trace st @ [FileWrite (archive_path e fname)]\<rparr>"

definition insert_called :: "save_env \<Rightarrow> save_request \<Rightarrow> string \<Rightarrow> state \<Rightarrow> state" where
  "insert_called e r fname st =
     st\<lparr>fs := (fs st)(archive_path e fname \<mapsto> File (req_content r)),
        trace := trace st @ [FileWrite (archive_path e fname),
                             LedgerInsert (req_name r) (archive_path e fname)]\<rparr>"

text \<open>The events a call appended to the log.\<close>

definition events_of :: "state \<Rightarrow> state \<Rightarrow> event list" where
  "events_of st st' = drop (length (trace st)) (trace st')"

text \<open>The values the examples below run on.\<close>

definition example_env :: save_env where
  "example_env =
     \<lparr>uuid4 = ''123e4567-e89b-42d3-a456-426614174000'', now = 1700000000,
      file_io = IoOk, db_fails = False\<rparr>"

definition example_request :: save_request where
  "example_request =
     \<lparr>req_name = ''model-v1'', req_filename = Some ''model.bin'', req_content = ''abc'',
      req_description = None, req_metadata = None\<rparr>"

definition second_env :: save_env where
  "second_env = example_env\<lparr>uuid4 := ''9b2f6c1e-0d4a-4f7b-8e21-5a3c7d9e1f02''\<rparr>"

definition empty_state :: state where
  "empty_state = \<lparr>fs = Map.empty, versions = [], versions_id_seq = 0, users = [], trace = []\<rparr>"

subsection \<open>Version ledger: reading\<close>

text \<open>
  \<^verbatim>\<open>get_version(conn, version_id)\<close>, the same in \<^verbatim>\<open>crud.py\<close> and
  \<^verbatim>\<open>app/crud/versions.py\<close>: \<^verbatim>\<open>SELECT ... FROM versions WHERE id = $1\<close> with the id
  bound as \<^verbatim>\<open>int4\<close>, then \<^verbatim>\<open>Version(...)\<close> of the row, or \<^verbatim>\<open>None\<close>. Any exception
  in the \<^verbatim>\<open>try\<close> becomes 500: of the database, of the driver binding the id, of the
  model validating the row.
\<close>

definition get_version :: "bool \<Rightarrow> int \<Rightarrow> state \<Rightarrow> exn + version option" where
  "get_version fails version_id st =
     (case (if fails then Inl PostgresError
            else case encode_int4 version_id of
                   Inl err \<Rightarrow> Inl err
                 | Inr i \<Rightarrow>
                     (case find (\<lambda>row. r_id row = i) (versions st) of
                        None \<Rightarrow> Inr None
                      | Some row \<Rightarrow>
                          (case Version row of
                             Inl err \<Rightarrow> Inl err
                           | Inr found \<Rightarrow> Inr (Some found)))) of
        Inl _ \<Rightarrow> Inl (HTTPException 500 DatabaseErrorDuringRetrieval)
      | Inr result \<Rightarrow> Inr result)"

text \<open>The comprehension \<^verbatim>\<open>[Version(...) for row in rows]\<close>: the first failure ends it.\<close>

fun Version_list :: "version_row list \<Rightarrow> exn + version list" where
  "Version_list [] = Inr []"
| "Version_list (row # rows) =
     (case Version row of
        Inl err \<Rightarrow> Inl err
      | Inr v \<Rightarrow> (case Version_list rows of Inl err \<Rightarrow> Inl err | Inr vs \<Rightarrow> Inr (v # vs)))"

text \<open>
  \<^verbatim>\<open>get_versions(conn)\<close>, the same in both modules:
  \<^verbatim>\<open>SELECT ... FROM versions ORDER BY created_at DESC\<close>, nulls first as PostgreSQL has
  them in descending order. The statement names no second key, so the order among rows of
  equal \<^verbatim>\<open>created_at\<close> is the engine's; the model takes a stable sort over the rows as
  they are stored, one of the results the engine may give.
\<close>

definition get_versions :: "bool \<Rightarrow> state \<Rightarrow> exn + version list" where
  "get_versions fails st =
     (case (if fails then Inl PostgresError
            else Version_list
                   (sort_key (\<lambda>row. map_option uminus (r_created_at row)) (versions st))) of
        Inl _ \<Rightarrow> Inl (HTTPException 500 DatabaseErrorDuringListing)
      | Inr result \<Rightarrow> Inr result)"

text \<open>A row the model \<^verbatim>\<open>Version\<close> accepts.\<close>

definition readable :: "version_row \<Rightarrow> bool" where
  "readable row = (case Version row of Inr _ \<Rightarrow> True | Inl _ \<Rightarrow> False)"

text \<open>
  The order the specification asks of a listing: strictly descending by \<^verbatim>\<open>created_at\<close>,
  ties broken by descending \<^verbatim>\<open>id\<close>. And the order the statement asks for.
\<close>

definition newer :: "version \<Rightarrow> version \<Rightarrow> bool" where
  "newer a b =
     (v_created_at b < v_created_at a \<or> (v_created_at a = v_created_at b \<and> v_id b < v_id a))"

definition newest_first_ties_by_id :: "version list \<Rightarrow> bool" where
  "newest_first_ties_by_id rows = sorted_wrt newer rows"

definition created_at_descending :: "version list \<Rightarrow> bool" where
  "created_at_descending rows = sorted_wrt (\<lambda>a b. v_created_at b \<le> v_created_at a) rows"

subsection \<open>Artifact store: restoring\<close>

text \<open>
  What a restore meets: whether the lookup fails, and whether the disk refuses: before
  anything is removed (\<^verbatim>\<open>ClearFails\<close>), or after the directory has been cleared
  (\<^verbatim>\<open>CopyFails\<close>).
\<close>

datatype restore_fault = ClearFails | CopyFails

record restore_env =
  query_fails :: bool
  disk_fault :: "restore_fault option"

text \<open>
  The entries of the active directory: \<^verbatim>\<open>os.path.join(CURRENT_ACTIVE_ARTIFACT_DIR, f)\<close>
  for \<^verbatim>\<open>f\<close> in \<^verbatim>\<open>os.listdir(CURRENT_ACTIVE_ARTIFACT_DIR)\<close>, that is, the paths one
  name below the directory.
\<close>

definition active_entry :: "string \<Rightarrow> bool" where
  "active_entry p =
     (let prefix = CURRENT_ACTIVE_ARTIFACT_DIR @ ''/'';
          f = drop (length prefix) p
      in take (length prefix) p = prefix \<and> f \<noteq> [] \<and> CHR ''/'' \<notin> set f)"

text \<open>
  \<^verbatim>\<open>[os.unlink(os.path.join(DIR, f)) for f in os.listdir(DIR) if os.path.isfile(os.path.join(DIR, f))]\<close>:
  every regular file of the directory goes, subdirectories stay.
\<close>

definition clear_active :: "filesystem \<Rightarrow> filesystem" where
  "clear_active files =
     (\<lambda>p. case files p of
            Some (File content) \<Rightarrow> if active_entry p then None else Some (File content)
          | other \<Rightarrow> other)"

text \<open>
  \<^verbatim>\<open>shutil.copy(src, dst)\<close>: into \<^verbatim>\<open>dst\<close> if that is a directory; refuses to copy a
  file onto itself; the source must be a regular file, the destination a path a file can
  be opened at.
\<close>

definition shutil_copy :: "string \<Rightarrow> string \<Rightarrow> filesystem \<Rightarrow> exn + filesystem" where
  "shutil_copy src dst files =
     (let dst' = (if is_directory files dst then os_path_join dst (os_path_basename src)
                  else dst)
      in if src = dst' then Inl OSError
         else (case files src of
                 Some (File content) \<Rightarrow>
                   if can_open_for_writing files dst' then Inr (files(dst' \<mapsto> File content))
                   else Inl OSError
               | _ \<Rightarrow> Inl OSError))"

text \<open>
  The two steps both restore functions hand to the executor of an event loop: clear the
  active directory, copy the artifact under its base name, return the destination.
\<close>

definition clear_and_copy :: "restore_fault option \<Rightarrow> string \<Rightarrow> state \<Rightarrow> (exn + string) \<times> state" where
  "clear_and_copy fault source_path st =
     (if fault = Some ClearFails then (Inl OSError, st)
      else
        let st1 = st\<lparr>fs := clear_active (fs st)\<rparr>;
            destination_path =
              os_path_join CURRENT_ACTIVE_ARTIFACT_DIR (os_path_basename source_path)
        in if fault = Some CopyFails then (Inl OSError, st1)
           else (case shutil_copy source_path destination_path (fs st1) of
                   Inl err \<Rightarrow> (Inl err, st1)
                 | Inr files \<Rightarrow> (Inr destination_path, st1\<lparr>fs := files\<rparr>)))"

text \<open>
  \<^verbatim>\<open>crud.py\<close>, \<^verbatim>\<open>restore_version(conn, version_id)\<close>. The \<^verbatim>\<open>try\<close> starts with
  \<^verbatim>\<open>conn.loop.run_in_executor\<close>. A connection of asyncpg, and the proxy the pool hands
  out for it, has no attribute \<^verbatim>\<open>loop\<close>, so the expression raises \<^verbatim>\<open>AttributeError\<close>;
  any exception in the \<^verbatim>\<open>try\<close> becomes 500.
\<close>

definition conn_loop :: "exn + unit" where
  "conn_loop = Inl (AttributeError ''loop'')"

definition crud_restore_version :: "restore_env \<Rightarrow> int \<Rightarrow> state \<Rightarrow> (exn + string option) \<times> state" where
  "crud_restore_version e version_id st =
     (case get_version (query_fails e) version_id st of
        Inl err \<Rightarrow> (Inl err, st)
      | Inr None \<Rightarrow> (Inr None, st)
      | Inr (Some version) \<Rightarrow>
          (case (case conn_loop of
                   Inl err \<Rightarrow> (Inl err, st)
                 | Inr _ \<Rightarrow> clear_and_copy (disk_fault e) (v_artifact_path version) st) of
             (Inl err, st') \<Rightarrow> (Inl (HTTPException 500 FailedToRestoreArtifact), st')
           | (Inr destination_path, st') \<Rightarrow> (Inr (Some destination_path), st')))"

text \<open>
  \<^verbatim>\<open>main.py\<close>, \<^verbatim>\<open>restore_artifact_version(version_id)\<close>: \<^verbatim>\<open>if not restored_path\<close>
  answers 404 for \<^verbatim>\<open>None\<close> (and for an empty path). The response carries the path.
\<close>

definition main_restore_artifact_version :: "restore_env \<Rightarrow> int \<Rightarrow> state \<Rightarrow> (exn + string) \<times> state" where
  "main_restore_artifact_version e version_id st =
     (case crud_restore_version e version_id st of
        (Inl err, st') \<Rightarrow> (Inl err, st')
      | (Inr None, st') \<Rightarrow> (Inl (HTTPException 404 (VersionNotFoundOrFailedToRestore version_id)), st')
      | (Inr (Some restored_path), st') \<Rightarrow>
          if restored_path = []
          then (Inl (HTTPException 404 (VersionNotFoundOrFailedToRestore version_id)), st')
          else (Inr restored_path, st'))"

text \<open>
  \<^verbatim>\<open>app/services/artifact_storage.py\<close>, \<^verbatim>\<open>restore_artifact_file(source_path)\<close>. Its
  \<^verbatim>\<open>try\<close> starts with \<^verbatim>\<open>os.get_event_loop()\<close>. The module \<^verbatim>\<open>os\<close> of the standard
  library has no attribute of that name (the function lives in \<^verbatim>\<open>asyncio\<close>), so the
  expression raises \<^verbatim>\<open>AttributeError\<close>.
\<close>

definition os_get_event_loop :: "exn + unit" where
  "os_get_event_loop = Inl (AttributeError ''get_event_loop'')"

definition restore_artifact_file :: "restore_env \<Rightarrow> string \<Rightarrow> state \<Rightarrow> (exn + string) \<times> state" where
  "restore_artifact_file e source_path st =
     (case (case os_get_event_loop of
              Inl err \<Rightarrow> (Inl err, st)
            | Inr _ \<Rightarrow> clear_and_copy (disk_fault e) source_path st) of
        (Inl err, st') \<Rightarrow> (Inl (HTTPException 500 FailedToRestoreArtifact), st')
      | (Inr destination_path, st') \<Rightarrow> (Inr destination_path, st'))"

text \<open>\<^verbatim>\<open>app/api/v1/endpoints/versions.py\<close>, \<^verbatim>\<open>restore_artifact_version(version_id)\<close>.\<close>

definition restore_artifact_version :: "restore_env \<Rightarrow> int \<Rightarrow> state \<Rightarrow> (exn + string) \<times> state" where
  "restore_artifact_version e version_id st =
     (case get_version (query_fails e) version_id st of
        Inl err \<Rightarrow> (Inl err, st)
      | Inr None \<Rightarrow> (Inl (HTTPException 404 (VersionNotFound version_id)), st)
      | Inr (Some version) \<Rightarrow>
          (case restore_artifact_file e (v_artifact_path version) st of
             (Inl err, st') \<Rightarrow> (Inl err, st')
           | (Inr restored_path, st') \<Rightarrow>
               if restored_path = []
               then (Inl (HTTPException 500 (FailedToRestoreArtifactForVersion version_id)), st')
               else (Inr restored_path, st')))"

text \<open>A ledger and an archive for the examples: one version, its artifact, a stale active file.\<close>

definition example_row :: version_row where
  "example_row =
     \<lparr>r_id = 1, r_name = ''model-v1'', r_description = None,
      r_artifact_path = ''artifacts/123e4567-e89b-42d3-a456-426614174000.bin'',
      r_created_at = Some 1700000000, r_metadata = None\<rparr>"

definition example_version :: version where
  "example_version =
     \<lparr>v_id = 1, v_name = ''model-v1'', v_description = None,
      v_artifact_path = ''artifacts/123e4567-e89b-42d3-a456-426614174000.bin'',
      v_created_at = 1700000000, v_metadata = None\<rparr>"

definition restore_state :: state where
  "restore_state =
     \<lparr>fs = [''artifacts/123e4567-e89b-42d3-a456-426614174000.bin'' \<mapsto> File ''abc'',
            ''current_active_artifact/old.bin'' \<mapsto> File ''old''],
      versions = [example_row], versions_id_seq = 1, users = [], trace = []\<rparr>"

definition restore_env_ok :: restore_env where
  "restore_env_ok = \<lparr>query_fails = False, disk_fault = None\<rparr>"

text \<open>A ledger whose two rows carry the same \<^verbatim>\<open>created_at\<close>.\<close>

definition tied_state :: state where
  "tied_state =
     \<lparr>fs = Map.empty,
      versions = [example_row, example_row\<lparr>r_id := 2, r_name := ''model-v2''\<rparr>],
      versions_id_seq = 2, users = [], trace = []\<rparr>"

text \<open>A ledger of three rows inserted at three different times.\<close>

definition three_state :: state where
  "three_state =
     \<lparr>fs = Map.empty,
      versions =
        [example_row\<lparr>r_created_at := Some 10\<rparr>,
         example_row\<lparr>r_id := 2, r_name := ''model-v2'', r_created_at := Some 20\<rparr>,
         example_row\<lparr>r_id := 3, r_name := ''model-v3'', r_created_at := Some 30\<rparr>],
      versions_id_seq = 3, users = [], trace = []\<rparr>"

text \<open>A ledger whose one row has metadata, which the driver hands over as text.\<close>

definition annotated_state :: state where
  "annotated_state =
     \<lparr>fs = [''artifacts/123e4567-e89b-42d3-a456-426614174000.bin'' \<mapsto> File ''abc''],
      versions = [example_row\<lparr>r_metadata := Some ''{}''\<rparr>],
      versions_id_seq = 1, users = [], trace = []\<rparr>"

subsection \<open>Issuing a token\<close>

text \<open>
  The form of \<^verbatim>\<open>POST /v1/token\<close>, the response, and the claims of the token. Time is in
  seconds.
\<close>

record login_form =
  form_username :: string
  form_password :: string

record token =
  access_token :: string
  token_type :: string

record token_claims =
  claim_sub :: string
  claim_roles :: "string list"
  claim_exp :: int

record login_env =
  user_query_fails :: bool
  clock :: int
  ACCESS_TOKEN_EXPIRE_MINUTES :: int

text \<open>
  \<^verbatim>\<open>users.py\<close>, \<^verbatim>\<open>get_user_by_username(conn, username)\<close>:
  \<^verbatim>\<open>SELECT ... FROM users WHERE username = $1\<close>, the user or \<^verbatim>\<open>None\<close>; an exception
  of the driver becomes 500. The package imports the function of this name from
  \<^verbatim>\<open>app/crud/users.py\<close>, which is not among the sources; the same lookup stands for it.
\<close>

definition get_user_by_username :: "bool \<Rightarrow> string \<Rightarrow> state \<Rightarrow> exn + user_in_db option" where
  "get_user_by_username fails nm st =
     (if fails then Inl (HTTPException 500 DatabaseErrorFetchingUser)
      else Inr (find (\<lambda>u. username u = nm) (users st)))"

text \<open>
  \<^verbatim>\<open>app/core/security.py\<close>, \<^verbatim>\<open>create_access_token(data, expires_delta)\<close>: the expiry is
  now plus \<^verbatim>\<open>expires_delta\<close> if that is given and not zero, else now plus the configured
  minutes. \<^verbatim>\<open>jwt.encode\<close> (python-jose) is the parameter \<open>jwt_encode\<close>.
\<close>

definition create_access_token ::
  "(token_claims \<Rightarrow> string) \<Rightarrow> login_env \<Rightarrow> string \<Rightarrow> string list \<Rightarrow> int option \<Rightarrow> string" where
  "create_access_token jwt_encode e subject rs expires_delta =
     (let expire =
            (case expires_delta of
               Some delta \<Rightarrow>
                 if delta \<noteq> 0 then clock e + delta
                 else clock e + ACCESS_TOKEN_EXPIRE_MINUTES e * 60
             | None \<Rightarrow> clock e + ACCESS_TOKEN_EXPIRE_MINUTES e * 60)
      in jwt_encode \<lparr>claim_sub = subject, claim_roles = rs, claim_exp = expire\<rparr>)"

text \<open>
  \<^verbatim>\<open>app/api/v1/endpoints/auth.py\<close>, \<^verbatim>\<open>login_for_access_token\<close>.
  \<^verbatim>\<open>verify_password\<close> (passlib's \<^verbatim>\<open>pwd_context.verify\<close>) is a parameter.
\<close>

definition login_for_access_token ::
  "(string \<Rightarrow> string \<Rightarrow> bool) \<Rightarrow> (token_claims \<Rightarrow> string) \<Rightarrow> login_env \<Rightarrow> login_form \<Rightarrow> state
     \<Rightarrow> exn + token" where
  "login_for_access_token verify_password jwt_encode e form_data st =
     (case get_user_by_username (user_query_fails e) (form_username form_data) st of
        Inl err \<Rightarrow> Inl err
      | Inr None \<Rightarrow> Inl (HTTPException 401 IncorrectUsernameOrPassword)
      | Inr (Some user) \<Rightarrow>
          if \<not> verify_password (form_password form_data) (hashed_password user)
          then Inl (HTTPException 401 IncorrectUsernameOrPassword)
          else
            let access_token_expires = ACCESS_TOKEN_EXPIRE_MINUTES e * 60
            in Inr \<lparr>access_token =
                      create_access_token jwt_encode e (username user) (roles user)
                        (Some access_token_expires),
                    token_type = ''bearer''\<rparr>)"

text \<open>
  The names \<^verbatim>\<open>main.py\<close> binds at module level, by its imports and its definitions, in
  the order of the file. A name used in a function body that is neither local nor
  among these nor a builtin raises \<^verbatim>\<open>NameError\<close> when the line runs; \<^verbatim>\<open>timedelta\<close>
  is no builtin.
\<close>

definition main_py_names :: "string list" where
  "main_py_names =
     [''os'', ''uuid'', ''json'', ''logging'', ''aiofiles'',
      ''FastAPI'', ''UploadFile'', ''File'', ''HTTPException'', ''Depends'', ''status'',
      ''APIRouter'', ''JSONResponse'', ''OAuth2PasswordRequestForm'',
      ''Optional'', ''Dict'', ''Any'', ''List'', ''Connection'',
      ''VersionCreate'', ''Version'', ''User'', ''UserCreate'', ''Token'', ''TokenData'',
      ''UserInDB'',
      ''create_version'', ''get_version'', ''get_versions'', ''restore_version'',
      ''ARTIFACTS_DIR'',
      ''connect_to_db'', ''close_db_connection'', ''get_db_connection'', ''init_db_schema'',
      ''oauth2_scheme'', ''decode_access_token'', ''verify_password'', ''create_access_token'',
      ''get_user_by_username'', ''create_db_user'', ''get_all_users'',
      ''logger'', ''app'',
      ''get_current_user'', ''get_current_active_user'', ''get_current_admin_user'',
      ''api_v1_router'', ''login_for_access_token'', ''create_user_endpoint'',
      ''read_users_me'', ''read_users'', ''save_artifact_version'', ''get_artifact_version'',
      ''list_artifact_versions'', ''restore_artifact_version'', ''refactor_guidance'']"

definition main_py_name :: "string \<Rightarrow> exn + unit" where
  "main_py_name n = (if n \<in> set main_py_names then Inr () else Inl (NameError n))"

text \<open>
  \<^verbatim>\<open>main.py\<close>, \<^verbatim>\<open>login_for_access_token\<close>. After the check of the credentials comes
  \<^verbatim>\<open>access_token_expires = timedelta(minutes=30)\<close>. \<^verbatim>\<open>verify_password\<close> and
  \<^verbatim>\<open>create_access_token\<close> come from \<^verbatim>\<open>auth.py\<close>, which is not among the sources; they
  are parameters (the token from the subject, the roles and the seconds to expiry).
\<close>

definition main_login_for_access_token ::
  "(string \<Rightarrow> string \<Rightarrow> bool) \<Rightarrow> (string \<Rightarrow> string list \<Rightarrow> int \<Rightarrow> string) \<Rightarrow> login_env \<Rightarrow> login_form
     \<Rightarrow> state \<Rightarrow> exn + token" where
  "main_login_for_access_token verify_password auth_create_access_token e form_data st =
     (case get_user_by_username (user_query_fails e) (form_username form_data) st of
        Inl err \<Rightarrow> Inl err
      | Inr None \<Rightarrow> Inl (HTTPException 401 IncorrectUsernameOrPassword)
      | Inr (Some user) \<Rightarrow>
          if \<not> verify_password (form_password form_data) (hashed_password user)
          then Inl (HTTPException 401 IncorrectUsernameOrPassword)
          else (case main_py_name ''timedelta'' of
                  Inl err \<Rightarrow> Inl err
                | Inr _ \<Rightarrow>
                    let access_token_expires = 30 * 60
                    in Inr \<lparr>access_token =
                              auth_create_access_token (username user) (roles user)
                                access_token_expires,
                            token_type = ''bearer''\<rparr>))"

text \<open>
  A user table, a password check and an encoder for the examples: the check accepts the
  one pair the example uses, the encoder writes the subject.
\<close>

definition alice :: user_in_db where
  "alice =
     \<lparr>u_id = 1, username = ''alice'', email = None,
      hashed_password = ''$2b$12$hash-of-wonderland'', disabled = False, roles = [''user'']\<rparr>"

definition login_state :: state where
  "login_state = \<lparr>fs = Map.empty, versions = [], versions_id_seq = 0, users = [alice], trace = []\<rparr>"

definition login_env_example :: login_env where
  "login_env_example =
     \<lparr>user_query_fails = False, clock = 1700000000, ACCESS_TOKEN_EXPIRE_MINUTES = 60\<rparr>"

definition verify_example :: "string \<Rightarrow> string \<Rightarrow> bool" where
  "verify_example plain hashed =
     (plain = ''wonderland'' \<and> hashed = ''$2b$12$hash-of-wonderland'')"

definition encode_example :: "token_claims \<Rightarrow> string" where
  "encode_example claims = ''jwt:'' @ claim_sub claims"

definition auth_token_example :: "string \<Rightarrow> string list \<Rightarrow> int \<Rightarrow> string" where
  "auth_token_example subject rs seconds = ''jwt:'' @ subject"

subsection \<open>Facts about the path functions\<close>

lemma rfind_last:
  assumes "c \<notin> set x"
  shows "rfind (a @ c # x) c = int (length a)"
proof -
  let ?p = "a @ c # x"
  have "[0..<length a + Suc (length x)] = [0..<length a] @ [length a..<length a + Suc (length x)]"
    by (rule upt_add_eq_append) simp
  also have "[length a..<length a + Suc (length x)]
               = length a # [Suc (length a)..<length a + Suc (length x)]"
    by (rule upt_conv_Cons) simp
  finally have split: "[0..<length ?p] = [0..<length a] @ length a # [Suc (length a)..<length ?p]"
    by simp
  have none: "filter (\<lambda>i. ?p ! i = c) [Suc (length a)..<length ?p] = []"
  proof -
    have "?p ! i \<noteq> c" if "Suc (length a) \<le> i" "i < length ?p" for i
    proof -
      from that have "?p ! i = x ! (i - Suc (length a))"
        by (simp add: nth_append nth_Cons')
      moreover from that have "i - Suc (length a) < length x" by simp
      ultimately show ?thesis using assms by (metis nth_mem)
    qed
    then have "\<forall>i\<in>set [Suc (length a)..<length ?p]. \<not> ?p ! i = c"
      by (metis atLeastLessThan_iff set_upt)
    then show ?thesis by (rule filter_False)
  qed
  have here: "?p ! length a = c" by simp
  have "filter (\<lambda>i. ?p ! i = c) [0..<length ?p]
          = filter (\<lambda>i. ?p ! i = c) [0..<length a]
            @ filter (\<lambda>i. ?p ! i = c) (length a # [Suc (length a)..<length ?p])"
    by (subst split) (rule filter_append)
  also have "filter (\<lambda>i. ?p ! i = c) (length a # [Suc (length a)..<length ?p]) = [length a]"
    by (simp only: filter.simps here none) simp
  finally have "filter (\<lambda>i. ?p ! i = c) (rev [0..<length ?p])
          = length a # rev (filter (\<lambda>i. ?p ! i = c) [0..<length a])"
    by (simp only: rev_filter [symmetric] rev_append rev.simps append.simps)
  then show ?thesis by (simp only: rfind_def list.case)
qed

lemma rfind_absent:
  assumes "c \<notin> set p"
  shows "rfind p c = - 1"
proof -
  from assms have "filter (\<lambda>i. p ! i = c) (rev [0..<length p]) = []"
    by (auto simp: filter_empty_conv)
  then show ?thesis by (simp add: rfind_def)
qed


lemma rfind_scan:
  "(case filter P (rev [0..<n]) of [] \<Rightarrow> - 1 | i # _ \<Rightarrow> int i) < int j \<Longrightarrow> j < n \<Longrightarrow> \<not> P j"
proof (induction n)
  case 0
  then show ?case by simp
next
  case (Suc n)
  show ?case
  proof (cases "P n")
    case True
    with Suc.prems show ?thesis by simp
  next
    case notn: False
    show ?thesis
    proof (cases "j = n")
      case True
      with notn show ?thesis by simp
    next
      case False
      with Suc.prems have "j < n" by simp
      moreover from Suc.prems(1) notn
      have "(case filter P (rev [0..<n]) of [] \<Rightarrow> - 1 | i # _ \<Rightarrow> int i) < int j" by simp
      ultimately show ?thesis by (rule Suc.IH [rotated])
    qed
  qed
qed

lemma rfind_greatest: "rfind p c < int j \<Longrightarrow> j < length p \<Longrightarrow> p ! j \<noteq> c"
  unfolding rfind_def by (rule rfind_scan [where P = "\<lambda>i. p ! i = c"])

lemma rfind_lower: "- 1 \<le> rfind p c"
  by (simp add: rfind_def split: list.splits)

lemma splitext_extension_no_slash: "CHR ''/'' \<notin> set (snd (os_path_splitext p))"
proof (cases "rfind p (CHR ''/'') < rfind p (CHR ''.'')")
  case True
  have noslash: "p ! j \<noteq> CHR ''/''" if "nat (rfind p (CHR ''.'')) \<le> j" "j < length p" for j
  proof -
    from True that(1) rfind_lower [of p "CHR ''/''"] have "rfind p (CHR ''/'') < int j" by linarith
    then show ?thesis using that(2) by (rule rfind_greatest)
  qed
  have "CHR ''/'' \<notin> set (drop (nat (rfind p (CHR ''.''))) p)"
  proof
    assume "CHR ''/'' \<in> set (drop (nat (rfind p (CHR ''.''))) p)"
    then obtain i where i: "i < length (drop (nat (rfind p (CHR ''.''))) p)"
      "drop (nat (rfind p (CHR ''.''))) p ! i = CHR ''/''"
      by (auto simp: in_set_conv_nth)
    then have "nat (rfind p (CHR ''.'')) + i < length p"
      "p ! (nat (rfind p (CHR ''.'')) + i) = CHR ''/''"
      by simp_all
    with noslash [of "nat (rfind p (CHR ''.'')) + i"] show False by simp
  qed
  then show ?thesis by (simp add: os_path_splitext_def Let_def)
next
  case False
  then show ?thesis by (simp add: os_path_splitext_def Let_def)
qed

lemma uuid_text_no_slash: "uuid_text u \<Longrightarrow> CHR ''/'' \<notin> set u"
  by (auto simp: uuid_text_def list_all_iff)

lemma os_path_join_ARTIFACTS_DIR:
  "take 1 b \<noteq> ''/'' \<Longrightarrow> os_path_join ARTIFACTS_DIR b = ''artifacts/'' @ b"
  by (cases b) (simp_all add: os_path_join_def ARTIFACTS_DIR_def)

lemma unique_filename_no_slash: "uuid_text u \<Longrightarrow> take 1 (u @ x) \<noteq> ''/''"
  by (cases u) (auto simp: uuid_text_def)

lemma archive_path_join:
  "uuid_text (uuid4 e) \<Longrightarrow>
   os_path_join ARTIFACTS_DIR (uuid4 e @ snd (os_path_splitext fname)) = archive_path e fname"
  using os_path_join_ARTIFACTS_DIR [OF unique_filename_no_slash] by (simp add: archive_path_def)

lemma archive_path_fstring:
  "ARTIFACTS_DIR @ CHR ''/'' # uuid4 e @ snd (os_path_splitext fname) = archive_path e fname"
  by (simp add: archive_path_def ARTIFACTS_DIR_def)

lemma archive_file_rfind:
  assumes "CHR ''/'' \<notin> set f"
  shows "rfind (''artifacts/'' @ f) (CHR ''/'') = 9"
proof -
  have "rfind (''artifacts'' @ CHR ''/'' # f) (CHR ''/'') = int (length ''artifacts'')"
    using assms by (rule rfind_last)
  then show ?thesis by simp
qed

lemma archive_file_basename:
  "CHR ''/'' \<notin> set f \<Longrightarrow> os_path_basename (''artifacts/'' @ f) = f"
  using archive_file_rfind [of f] by (simp add: os_path_basename_def)

lemma archive_file_dirname:
  "CHR ''/'' \<notin> set f \<Longrightarrow> os_path_dirname (''artifacts/'' @ f) = ''artifacts''"
  using archive_file_rfind [of f] by (simp add: os_path_dirname_def)

lemma archive_file_can_open:
  assumes "CHR ''/'' \<notin> set f" "f \<noteq> []"
  shows "can_open_for_writing files (''artifacts/'' @ f) \<longleftrightarrow> files (''artifacts/'' @ f) \<noteq> Some Dir"
proof -
  from assms(2) obtain c cs where f: "f = c # cs" by (cases f) auto
  with assms(1) have c: "c \<noteq> CHR ''/''" by auto
  have "\<not> is_directory files (''artifacts/'' @ f) \<longleftrightarrow> files (''artifacts/'' @ f) \<noteq> Some Dir"
    by (simp add: is_directory_def ARTIFACTS_DIR_def CURRENT_ACTIVE_ARTIFACT_DIR_def f)
  then show ?thesis
    using assms archive_file_basename [OF assms(1)] archive_file_dirname [OF assms(1)]
    by (simp add: can_open_for_writing_def is_directory_def ARTIFACTS_DIR_def)
qed

lemma archive_path_can_open:
  assumes "uuid_text (uuid4 e)"
  shows "can_open_for_writing files (archive_path e fname)
           \<longleftrightarrow> files (archive_path e fname) \<noteq> Some Dir"
proof -
  have "CHR ''/'' \<notin> set (uuid4 e @ snd (os_path_splitext fname))"
    using uuid_text_no_slash [OF assms] splitext_extension_no_slash [of fname] by simp
  moreover have "uuid4 e @ snd (os_path_splitext fname) \<noteq> []"
    using assms by (auto simp: uuid_text_def)
  ultimately show ?thesis
    unfolding archive_path_def by (rule archive_file_can_open)
qed

subsection \<open>What a create-version request does\<close>

lemma events_of_append: "trace st' = trace st @ evs \<Longrightarrow> events_of st st' = evs"
  by (simp add: events_of_def)

lemma events_of_same: "events_of st st = []"
  by (simp add: events_of_def)

lemma crud_create_version_refused:
  "crud_create_version e version artifact_filename st =
     (Inl (HTTPException 500 DatabaseErrorDuringCreation),
      st\<lparr>trace := trace st @
           [LedgerInsert (vc_name version) (os_path_join ARTIFACTS_DIR artifact_filename)]\<rparr>)"
  by (simp add: crud_create_version_def fetchrow_insert_def Let_def)

lemma versions_create_version_refused:
  "versions_create_version e version artifact_filename artifact_base_path st =
     (Inl (HTTPException 500 DatabaseErrorDuringCreation),
      st\<lparr>trace := trace st @
           [LedgerInsert (vc_name version) (artifact_base_path @ ''/'' @ artifact_filename)]\<rparr>)"
  by (simp add: versions_create_version_def fetchrow_insert_def Let_def)

lemma VersionCreate_name:
  "VersionCreate nm descr j = Inr vc \<Longrightarrow> vc_name vc = nm"
  by (cases j) auto

lemma VersionCreate_error:
  "VersionCreate nm descr j = Inl err \<Longrightarrow> err = ValidationError"
  by (cases j) auto

lemma write_file_archive:
  assumes "uuid_text (uuid4 e)"
  shows "write_file (file_io e) (archive_path e fname) content st =
     (if fs st (archive_path e fname) = Some Dir then (Inl OSError, st)
      else case file_io e of
          OpenFails \<Rightarrow> (Inl OSError, st)
        | WriteFails partial \<Rightarrow>
            (Inl OSError,
             st\<lparr>fs := (fs st)(archive_path e fname \<mapsto> File partial),
                trace := trace st @ [FileWrite (archive_path e fname)]\<rparr>)
        | IoOk \<Rightarrow>
            (Inr (),
             st\<lparr>fs := (fs st)(archive_path e fname \<mapsto> File content),
                trace := trace st @ [FileWrite (archive_path e fname)]\<rparr>))"
  by (simp add: write_file_def archive_path_can_open [OF assms])

lemma save_artifact_version_outcome:
  assumes "uuid_text (uuid4 e)" "req_filename r = Some fname"
  shows "save_artifact_version json_loads e r st =
     (if fs st (archive_path e fname) = Some Dir
      then (Inl (HTTPException 500 FailedToSaveArtifactFile), st)
      else case file_io e of
          OpenFails \<Rightarrow> (Inl (HTTPException 500 FailedToSaveArtifactFile), st)
        | WriteFails partial \<Rightarrow>
            (Inl (HTTPException 500 FailedToSaveArtifactFile),
             st\<lparr>fs := (fs st)(archive_path e fname \<mapsto> File partial),
                trace := trace st @ [FileWrite (archive_path e fname)]\<rparr>)
        | IoOk \<Rightarrow>
            (case parse_metadata json_loads (req_metadata r) of
               Inl err \<Rightarrow> (Inl (save_version_handler err), uploaded e r fname st)
             | Inr parsed_metadata \<Rightarrow>
                 (case VersionCreate (req_name r) (req_description r) parsed_metadata of
                    Inl err \<Rightarrow> (Inl (HTTPException 500 FailedToSaveVersion), uploaded e r fname st)
                  | Inr version_create \<Rightarrow>
                      (Inl (HTTPException 500 DatabaseErrorDuringCreation),
                       insert_called e r fname st))))"
  using assms
  by (auto simp: save_artifact_version_def save_artifact_version_try_def save_artifact_file_def
      archive_path_join write_file_archive versions_create_version_refused archive_path_fstring
      uploaded_def insert_called_def Let_def
      dest: VersionCreate_name VersionCreate_error
      split: io_outcome.splits sum.splits)

lemma main_save_artifact_version_outcome:
  assumes "uuid_text (uuid4 e)" "req_filename r = Some fname"
  shows "main_save_artifact_version json_loads e r st =
     (if fs st (archive_path e fname) = Some Dir
      then (Inl (HTTPException 500 FailedToSaveVersion), st)
      else case file_io e of
          OpenFails \<Rightarrow> (Inl (HTTPException 500 FailedToSaveVersion), st)
        | WriteFails partial \<Rightarrow>
            (Inl (HTTPException 500 FailedToSaveVersion),
             st\<lparr>fs := (fs st)(archive_path e fname \<mapsto> File partial),
                trace := trace st @ [FileWrite (archive_path e fname)]\<rparr>)
        | IoOk \<Rightarrow>
            (case parse_metadata json_loads (req_metadata r) of
               Inl err \<Rightarrow> (Inl (save_version_handler err), uploaded e r fname st)
             | Inr parsed_metadata \<Rightarrow>
                 (case VersionCreate (req_name r) (req_description r) parsed_metadata of
                    Inl err \<Rightarrow> (Inl (HTTPException 500 FailedToSaveVersion), uploaded e r fname st)
                  | Inr version_create \<Rightarrow>
                      (Inl (HTTPException 500 DatabaseErrorDuringCreation),
                       insert_called e r fname st))))"
  using assms
  by (auto simp: main_save_artifact_version_def main_save_artifact_version_try_def
      archive_path_join write_file_archive crud_create_version_refused
      uploaded_def insert_called_def Let_def
      dest: VersionCreate_name VersionCreate_error
      split: io_outcome.splits sum.splits)

lemma save_no_filename:
  "req_filename r = None \<Longrightarrow>
   save_artifact_version json_loads e r st = (Inl (HTTPException 500 FailedToSaveVersion), st) \<and>
   main_save_artifact_version json_loads e r st = (Inl (HTTPException 500 FailedToSaveVersion), st)"
  by (simp add: save_artifact_version_def save_artifact_version_try_def
      main_save_artifact_version_def main_save_artifact_version_try_def)

lemma example_uuid: "uuid_text (uuid4 example_env)"
  by (simp add: example_env_def uuid_text_def)

lemma second_uuid: "uuid_text (uuid4 second_env)"
  by (simp add: second_env_def example_env_def uuid_text_def)

lemma splitext_model_bin: "os_path_splitext ''model.bin'' = (''model'', ''.bin'')"
  by code_simp

lemma example_archive_path:
  "archive_path example_env ''model.bin'' = ''artifacts/123e4567-e89b-42d3-a456-426614174000.bin''"
  by (simp add: archive_path_def example_env_def splitext_model_bin)

lemma second_archive_path:
  "archive_path second_env ''model.bin'' = ''artifacts/9b2f6c1e-0d4a-4f7b-8e21-5a3c7d9e1f02.bin''"
  by (simp add: archive_path_def second_env_def example_env_def splitext_model_bin)

lemma example_written:
  "upload_written example_env (example_request\<lparr>req_metadata := m\<rparr>) ''model.bin'' empty_state"
  by (simp add: upload_written_def example_uuid example_request_def empty_state_def)
     (simp add: example_env_def)

lemma second_written:
  "upload_written second_env (example_request\<lparr>req_metadata := m\<rparr>) ''model.bin'' empty_state"
  by (simp add: upload_written_def second_uuid example_request_def empty_state_def)
     (simp add: second_env_def example_env_def)

lemma deeply_nested_length: "length deeply_nested = 100000"
  by (simp add: deeply_nested_def)

lemma deeply_nested_differs: "length s < 100000 \<Longrightarrow> deeply_nested \<noteq> s \<and> s \<noteq> deeply_nested"
  using deeply_nested_length by auto

lemma json_loads_deeply_nested:
  "deeply_nested \<noteq> [] \<and> json_loads_examples deeply_nested = Inl RecursionError"
  using deeply_nested_differs [of "[]"] deeply_nested_differs [of "''{}''"]
    deeply_nested_differs [of "''null''"]
  by (simp add: json_loads_examples_def)

lemma json_loads_not_json:
  "json_loads_examples ''{not json'' = Inl JSONDecodeError"
  using deeply_nested_differs [of "''{not json''"]
  by (simp add: json_loads_examples_def)

lemma archive_paths_differ:
  assumes "uuid_text (uuid4 e1)" "uuid_text (uuid4 e2)" "uuid4 e1 \<noteq> uuid4 e2"
  shows "archive_path e1 f1 \<noteq> archive_path e2 f2"
proof
  assume "archive_path e1 f1 = archive_path e2 f2"
  then have "uuid4 e1 @ snd (os_path_splitext f1) = uuid4 e2 @ snd (os_path_splitext f2)"
    by (simp add: archive_path_def)
  moreover from assms(1,2) have "length (uuid4 e1) = length (uuid4 e2)"
    by (simp add: uuid_text_def)
  ultimately have "uuid4 e1 = uuid4 e2" by simp
  with assms(3) show False by simp
qed

lemma save_accepted:
  assumes "upload_accepted json_loads e r fname st"
  shows "save_artifact_version json_loads e r st
           = (Inl (HTTPException 500 DatabaseErrorDuringCreation), insert_called e r fname st)"
    and "main_save_artifact_version json_loads e r st
           = (Inl (HTTPException 500 DatabaseErrorDuringCreation), insert_called e r fname st)"
proof -
  from assms have u: "uuid_text (uuid4 e)" and f: "req_filename r = Some fname"
    and io: "file_io e = IoOk" and free: "fs st (archive_path e fname) \<noteq> Some Dir"
    and m: "metadata_accepted json_loads (req_metadata r)"
    by (simp_all add: upload_accepted_def upload_written_def)
  from m obtain j where j: "parse_metadata json_loads (req_metadata r) = Inr j"
    "j = JNull \<or> (\<exists>kvs. j = JObject kvs)"
    by (auto simp: metadata_accepted_def split: sum.splits json.splits)
  from j(2) obtain vc where vc: "VersionCreate (req_name r) (req_description r) j = Inr vc"
    by auto
  show "save_artifact_version json_loads e r st
           = (Inl (HTTPException 500 DatabaseErrorDuringCreation), insert_called e r fname st)"
    using io free j(1) vc by (simp add: save_artifact_version_outcome [OF u f])
  show "main_save_artifact_version json_loads e r st
           = (Inl (HTTPException 500 DatabaseErrorDuringCreation), insert_called e r fname st)"
    using io free j(1) vc by (simp add: main_save_artifact_version_outcome [OF u f])
qed

lemma save_never_succeeds:
  "\<exists>err. fst (save_artifact_version json_loads e r st) = Inl err"
  "\<exists>err. fst (main_save_artifact_version json_loads e r st) = Inl err"
  "versions (snd (save_artifact_version json_loads e r st)) = versions st"
  "versions (snd (main_save_artifact_version json_loads e r st)) = versions st"
  by (auto simp: save_artifact_version_def save_artifact_version_try_def save_artifact_file_def
      main_save_artifact_version_def main_save_artifact_version_try_def write_file_def
      versions_create_version_refused crud_create_version_refused Let_def
      split: option.splits io_outcome.splits sum.splits)

subsection \<open>Malformed metadata\<close>

text \<open>
  C1. The claim says a metadata text that does not parse is answered 400 before any
  storage is touched. Both endpoints write the upload first and parse afterwards: the
  request with the metadata \<^verbatim>\<open>{not json\<close> is answered 400 and leaves its file in the
  archive, where there was none. And the empty text, which does not parse either, is not
  answered 400: \<^verbatim>\<open>if metadata:\<close> skips the parser, and the request goes on to the ledger.
\<close>

theorem malformed_metadata_untouched_storage_counterexample:
  "fs empty_state ''artifacts/123e4567-e89b-42d3-a456-426614174000.bin'' = None \<and>
   fst (save_artifact_version json_loads_examples example_env
          (example_request\<lparr>req_metadata := Some ''{not json''\<rparr>) empty_state)
     = Inl (HTTPException 400 InvalidMetadataJSON) \<and>
   fs (snd (save_artifact_version json_loads_examples example_env
          (example_request\<lparr>req_metadata := Some ''{not json''\<rparr>) empty_state))
      ''artifacts/123e4567-e89b-42d3-a456-426614174000.bin'' = Some (File ''abc'') \<and>
   fst (main_save_artifact_version json_loads_examples example_env
          (example_request\<lparr>req_metadata := Some ''{not json''\<rparr>) empty_state)
     = Inl (HTTPException 400 InvalidMetadataJSON) \<and>
   fs (snd (main_save_artifact_version json_loads_examples example_env
          (example_request\<lparr>req_metadata := Some ''{not json''\<rparr>) empty_state))
      ''artifacts/123e4567-e89b-42d3-a456-426614174000.bin'' = Some (File ''abc'') \<and>
   fst (save_artifact_version json_loads_examples example_env
          (example_request\<lparr>req_metadata := Some []\<rparr>) empty_state)
     = Inl (HTTPException 500 DatabaseErrorDuringCreation) \<and>
   fst (main_save_artifact_version json_loads_examples example_env
          (example_request\<lparr>req_metadata := Some []\<rparr>) empty_state)
     = Inl (HTTPException 500 DatabaseErrorDuringCreation)"
proof -
  have f: "req_filename (example_request\<lparr>req_metadata := m\<rparr>) = Some ''model.bin''" for m
    by (simp add: example_request_def)
  have io: "file_io example_env = IoOk" by (simp add: example_env_def)
  have c: "req_content (example_request\<lparr>req_metadata := m\<rparr>) = ''abc''" for m
    by (simp add: example_request_def)
  show ?thesis
    by (simp add: save_artifact_version_outcome [OF example_uuid f]
        main_save_artifact_version_outcome [OF example_uuid f] io c example_archive_path
        parse_metadata_def json_loads_not_json uploaded_def empty_state_def)
qed

text \<open>
  C1, amended. Once the upload is written (the token is a UUID, the file has a name, the
  disk answers, the path is free), in both implementations: a non-empty metadata text on
  which the parser raises \<^verbatim>\<open>JSONDecodeError\<close> is answered 400, and the state is the one
  after the upload, with the file in the archive and the ledger as it was; a text on
  which the parser raises \<^verbatim>\<open>RecursionError\<close> or \<^verbatim>\<open>ValueError\<close> is answered 500, with
  the same state; the empty text is handled as the request without metadata is.
\<close>

theorem malformed_metadata_rejected_after_upload:
  assumes "upload_written e r fname st" and "req_metadata r = Some text"
  shows "(text \<noteq> [] \<and> json_loads text = Inl JSONDecodeError \<longrightarrow>
            save_artifact_version json_loads e r st
              = (Inl (HTTPException 400 InvalidMetadataJSON), uploaded e r fname st) \<and>
            main_save_artifact_version json_loads e r st
              = (Inl (HTTPException 400 InvalidMetadataJSON), uploaded e r fname st)) \<and>
         (text \<noteq> [] \<and> (json_loads text = Inl RecursionError \<or> json_loads text = Inl ValueError) \<longrightarrow>
            save_artifact_version json_loads e r st
              = (Inl (HTTPException 500 FailedToSaveVersion), uploaded e r fname st) \<and>
            main_save_artifact_version json_loads e r st
              = (Inl (HTTPException 500 FailedToSaveVersion), uploaded e r fname st)) \<and>
         (text = [] \<longrightarrow>
            save_artifact_version json_loads e r st
              = save_artifact_version json_loads e (r\<lparr>req_metadata := None\<rparr>) st \<and>
            main_save_artifact_version json_loads e r st
              = main_save_artifact_version json_loads e (r\<lparr>req_metadata := None\<rparr>) st \<and>
            fst (save_artifact_version json_loads e r st)
              = Inl (HTTPException 500 DatabaseErrorDuringCreation) \<and>
            fst (main_save_artifact_version json_loads e r st)
              = Inl (HTTPException 500 DatabaseErrorDuringCreation))"
proof -
  from assms(1) have u: "uuid_text (uuid4 e)" and f: "req_filename r = Some fname"
    and io: "file_io e = IoOk" and free: "fs st (archive_path e fname) \<noteq> Some Dir"
    by (simp_all add: upload_written_def)
  have f': "req_filename (r\<lparr>req_metadata := None\<rparr>) = Some fname" using f by simp
  show ?thesis
    using assms(2) io free
    by (auto simp: save_artifact_version_outcome [OF u f] main_save_artifact_version_outcome [OF u f]
        save_artifact_version_outcome [OF u f'] main_save_artifact_version_outcome [OF u f']
        parse_metadata_def uploaded_def insert_called_def)
qed

theorem malformed_metadata_rejected_after_upload_witness:
  "upload_written example_env (example_request\<lparr>req_metadata := Some ''{not json''\<rparr>)
     ''model.bin'' empty_state \<and>
   ''{not json'' \<noteq> [] \<and> json_loads_examples ''{not json'' = Inl JSONDecodeError \<and>
   save_artifact_version json_loads_examples example_env
       (example_request\<lparr>req_metadata := Some ''{not json''\<rparr>) empty_state
     = (Inl (HTTPException 400 InvalidMetadataJSON),
        uploaded example_env (example_request\<lparr>req_metadata := Some ''{not json''\<rparr>)
          ''model.bin'' empty_state) \<and>
   main_save_artifact_version json_loads_examples example_env
       (example_request\<lparr>req_metadata := Some ''{not json''\<rparr>) empty_state
     = (Inl (HTTPException 400 InvalidMetadataJSON),
        uploaded example_env (example_request\<lparr>req_metadata := Some ''{not json''\<rparr>)
          ''model.bin'' empty_state) \<and>
   upload_written example_env (example_request\<lparr>req_metadata := Some deeply_nested\<rparr>)
     ''model.bin'' empty_state \<and>
   deeply_nested \<noteq> [] \<and> json_loads_examples deeply_nested = Inl RecursionError \<and>
   save_artifact_version json_loads_examples example_env
       (example_request\<lparr>req_metadata := Some deeply_nested\<rparr>) empty_state
     = (Inl (HTTPException 500 FailedToSaveVersion),
        uploaded example_env (example_request\<lparr>req_metadata := Some deeply_nested\<rparr>)
          ''model.bin'' empty_state) \<and>
   main_save_artifact_version json_loads_examples example_env
       (example_request\<lparr>req_metadata := Some deeply_nested\<rparr>) empty_state
     = (Inl (HTTPException 500 FailedToSaveVersion),
        uploaded example_env (example_request\<lparr>req_metadata := Some deeply_nested\<rparr>)
          ''model.bin'' empty_state) \<and>
   upload_written example_env (example_request\<lparr>req_metadata := Some []\<rparr>)
     ''model.bin'' empty_state \<and>
   save_artifact_version json_loads_examples example_env
       (example_request\<lparr>req_metadata := Some []\<rparr>) empty_state
     = save_artifact_version json_loads_examples example_env
       (example_request\<lparr>req_metadata := Some [], req_metadata := None\<rparr>) empty_state \<and>
   main_save_artifact_version json_loads_examples example_env
       (example_request\<lparr>req_metadata := Some []\<rparr>) empty_state
     = main_save_artifact_version json_loads_examples example_env
       (example_request\<lparr>req_metadata := Some [], req_metadata := None\<rparr>) empty_state \<and>
   fst (save_artifact_version json_loads_examples example_env
       (example_request\<lparr>req_metadata := Some []\<rparr>) empty_state)
     = Inl (HTTPException 500 DatabaseErrorDuringCreation) \<and>
   fst (main_save_artifact_version json_loads_examples example_env
       (example_request\<lparr>req_metadata := Some []\<rparr>) empty_state)
     = Inl (HTTPException 500 DatabaseErrorDuringCreation)"
proof -
  have m: "req_metadata (example_request\<lparr>req_metadata := Some t\<rparr>) = Some t" for t
    by simp
  have bad: "''{not json'' \<noteq> [] \<and> json_loads_examples ''{not json'' = Inl JSONDecodeError"
    using json_loads_not_json by simp
  note deep = json_loads_deeply_nested
  have deep': "deeply_nested \<noteq> [] \<and>
      (json_loads_examples deeply_nested = Inl RecursionError \<or>
       json_loads_examples deeply_nested = Inl ValueError)"
    using deep by simp
  from malformed_metadata_rejected_after_upload
         [OF example_written m, where json_loads = json_loads_examples, of "''{not json''"] bad
  have one: "save_artifact_version json_loads_examples example_env
       (example_request\<lparr>req_metadata := Some ''{not json''\<rparr>) empty_state
     = (Inl (HTTPException 400 InvalidMetadataJSON),
        uploaded example_env (example_request\<lparr>req_metadata := Some ''{not json''\<rparr>)
          ''model.bin'' empty_state) \<and>
   main_save_artifact_version json_loads_examples example_env
       (example_request\<lparr>req_metadata := Some ''{not json''\<rparr>) empty_state
     = (Inl (HTTPException 400 InvalidMetadataJSON),
        uploaded example_env (example_request\<lparr>req_metadata := Some ''{not json''\<rparr>)
          ''model.bin'' empty_state)"
    by blast
  from malformed_metadata_rejected_after_upload
         [OF example_written m, where json_loads = json_loads_examples, of deeply_nested] deep'
  have two: "save_artifact_version json_loads_examples example_env
       (example_request\<lparr>req_metadata := Some deeply_nested\<rparr>) empty_state
     = (Inl (HTTPException 500 FailedToSaveVersion),
        uploaded example_env (example_request\<lparr>req_metadata := Some deeply_nested\<rparr>)
          ''model.bin'' empty_state) \<and>
   main_save_artifact_version json_loads_examples example_env
       (example_request\<lparr>req_metadata := Some deeply_nested\<rparr>) empty_state
     = (Inl (HTTPException 500 FailedToSaveVersion),
        uploaded example_env (example_request\<lparr>req_metadata := Some deeply_nested\<rparr>)
          ''model.bin'' empty_state)"
    by blast
  from malformed_metadata_rejected_after_upload
         [OF example_written m, where json_loads = json_loads_examples, of "[]"]
  have three: "save_artifact_version json_loads_examples example_env
       (example_request\<lparr>req_metadata := Some []\<rparr>) empty_state
     = save_artifact_version json_loads_examples example_env
       (example_request\<lparr>req_metadata := Some [], req_metadata := None\<rparr>) empty_state \<and>
   main_save_artifact_version json_loads_examples example_env
       (example_request\<lparr>req_metadata := Some []\<rparr>) empty_state
     = main_save_artifact_version json_loads_examples example_env
       (example_request\<lparr>req_metadata := Some [], req_metadata := None\<rparr>) empty_state \<and>
   fst (save_artifact_version json_loads_examples example_env
       (example_request\<lparr>req_metadata := Some []\<rparr>) empty_state)
     = Inl (HTTPException 500 DatabaseErrorDuringCreation) \<and>
   fst (main_save_artifact_version json_loads_examples example_env
       (example_request\<lparr>req_metadata := Some []\<rparr>) empty_state)
     = Inl (HTTPException 500 DatabaseErrorDuringCreation)"
    by blast
  from one two three bad deep example_written [of "Some ''{not json''"]
    example_written [of "Some deeply_nested"] example_written [of "Some []"]
  show ?thesis by blast
qed

lemma example_accepted:
  "upload_accepted json_loads_examples example_env example_request ''model.bin'' empty_state"
  "upload_accepted json_loads_examples second_env example_request ''model.bin'' empty_state"
  "upload_accepted json_loads_examples example_env (example_request\<lparr>req_name := []\<rparr>)
     ''model.bin'' empty_state"
  by (simp_all add: upload_accepted_def upload_written_def example_uuid second_uuid
      metadata_accepted_def parse_metadata_def example_request_def empty_state_def)
     (simp_all add: example_env_def second_env_def)

lemma upload_accepted_after:
  assumes "upload_accepted json_loads e2 r2 f2 st"
  shows "upload_accepted json_loads e2 r2 f2 (insert_called e1 r1 f1 st)"
  using assms by (simp add: upload_accepted_def upload_written_def insert_called_def)

subsection \<open>Two requests with one name\<close>

text \<open>
  C3. The claim says that of two create-version attempts with the same name exactly one
  succeeds and the other is answered 409. In both implementations \<^verbatim>\<open>create_version\<close>
  hands \<^verbatim>\<open>Json(version.metadata)\<close>, the wrapper of psycopg2, to asyncpg, which refuses it
  for the \<^verbatim>\<open>jsonb\<close> parameter before the statement reaches the table; the
  \<^verbatim>\<open>except Exception\<close> clause turns that into 500. So of two requests with the same
  name, each acceptable on its own and run one after the other, both are answered 500:
  none succeeds, none is answered 409, the ledger is as it was, and both files are in
  the archive.
\<close>

theorem same_name_both_refused:
  assumes "upload_accepted json_loads e1 r1 f1 st"
    and "upload_accepted json_loads e2 r2 f2 st"
    and "req_name r2 = req_name r1"
    and "uuid4 e2 \<noteq> uuid4 e1"
  shows "save_artifact_version json_loads e1 r1 st
           = (Inl (HTTPException 500 DatabaseErrorDuringCreation), insert_called e1 r1 f1 st) \<and>
         save_artifact_version json_loads e2 r2 (insert_called e1 r1 f1 st)
           = (Inl (HTTPException 500 DatabaseErrorDuringCreation),
              insert_called e2 r2 f2 (insert_called e1 r1 f1 st)) \<and>
         main_save_artifact_version json_loads e1 r1 st
           = (Inl (HTTPException 500 DatabaseErrorDuringCreation), insert_called e1 r1 f1 st) \<and>
         main_save_artifact_version json_loads e2 r2 (insert_called e1 r1 f1 st)
           = (Inl (HTTPException 500 DatabaseErrorDuringCreation),
              insert_called e2 r2 f2 (insert_called e1 r1 f1 st)) \<and>
         versions (insert_called e2 r2 f2 (insert_called e1 r1 f1 st)) = versions st \<and>
         fs (insert_called e2 r2 f2 (insert_called e1 r1 f1 st)) (archive_path e1 f1)
           = Some (File (req_content r1)) \<and>
         fs (insert_called e2 r2 f2 (insert_called e1 r1 f1 st)) (archive_path e2 f2)
           = Some (File (req_content r2))"
proof -
  note second = upload_accepted_after [OF assms(2), of e1 r1 f1]
  from assms(1,2) have "uuid_text (uuid4 e1)" "uuid_text (uuid4 e2)"
    by (simp_all add: upload_accepted_def upload_written_def)
  with assms(4) have "archive_path e1 f1 \<noteq> archive_path e2 f2"
    by (intro archive_paths_differ) auto
  then have files: "versions (insert_called e2 r2 f2 (insert_called e1 r1 f1 st)) = versions st"
    "fs (insert_called e2 r2 f2 (insert_called e1 r1 f1 st)) (archive_path e1 f1)
           = Some (File (req_content r1))"
    "fs (insert_called e2 r2 f2 (insert_called e1 r1 f1 st)) (archive_path e2 f2)
           = Some (File (req_content r2))"
    by (simp_all add: insert_called_def)
  from save_accepted [OF assms(1)] save_accepted [OF second] files
  show ?thesis by simp
qed

theorem same_name_both_refused_witness:
  "upload_accepted json_loads_examples example_env example_request ''model.bin'' empty_state \<and>
   upload_accepted json_loads_examples second_env example_request ''model.bin'' empty_state \<and>
   req_name example_request = req_name example_request \<and>
   uuid4 second_env \<noteq> uuid4 example_env \<and>
   save_artifact_version json_loads_examples example_env example_request empty_state
     = (Inl (HTTPException 500 DatabaseErrorDuringCreation),
        insert_called example_env example_request ''model.bin'' empty_state) \<and>
   save_artifact_version json_loads_examples second_env example_request
       (insert_called example_env example_request ''model.bin'' empty_state)
     = (Inl (HTTPException 500 DatabaseErrorDuringCreation),
        insert_called second_env example_request ''model.bin''
          (insert_called example_env example_request ''model.bin'' empty_state)) \<and>
   main_save_artifact_version json_loads_examples example_env example_request empty_state
     = (Inl (HTTPException 500 DatabaseErrorDuringCreation),
        insert_called example_env example_request ''model.bin'' empty_state) \<and>
   main_save_artifact_version json_loads_examples second_env example_request
       (insert_called example_env example_request ''model.bin'' empty_state)
     = (Inl (HTTPException 500 DatabaseErrorDuringCreation),
        insert_called second_env example_request ''model.bin''
          (insert_called example_env example_request ''model.bin'' empty_state)) \<and>
   versions (insert_called second_env example_request ''model.bin''
          (insert_called example_env example_request ''model.bin'' empty_state)) = [] \<and>
   fs (insert_called second_env example_request ''model.bin''
          (insert_called example_env example_request ''model.bin'' empty_state))
      (archive_path example_env ''model.bin'') = Some (File ''abc'') \<and>
   fs (insert_called second_env example_request ''model.bin''
          (insert_called example_env example_request ''model.bin'' empty_state))
      (archive_path second_env ''model.bin'') = Some (File ''abc'')"
proof -
  have d: "uuid4 second_env \<noteq> uuid4 example_env"
    by (simp add: second_env_def example_env_def)
  have c: "req_content example_request = ''abc''" "versions empty_state = []"
    by (simp_all add: example_request_def empty_state_def)
  from same_name_both_refused [OF example_accepted(1) example_accepted(2) refl d] c d
    example_accepted(1) example_accepted(2)
  show ?thesis by simp
qed

subsection \<open>The empty name\<close>

text \<open>
  C9. The claim says a request with the empty name is rejected by validation before any
  storage is touched. Nothing validates the name: the request with the empty name writes
  its file to the archive, where there was none, and then calls the \<^verbatim>\<open>INSERT\<close> with the
  empty name.
\<close>

theorem empty_name_rejected_counterexample:
  "fs empty_state ''artifacts/123e4567-e89b-42d3-a456-426614174000.bin'' = None \<and>
   fs (snd (save_artifact_version json_loads_examples example_env
              (example_request\<lparr>req_name := []\<rparr>) empty_state))
      ''artifacts/123e4567-e89b-42d3-a456-426614174000.bin'' = Some (File ''abc'') \<and>
   events_of empty_state
      (snd (save_artifact_version json_loads_examples example_env
              (example_request\<lparr>req_name := []\<rparr>) empty_state))
     = [FileWrite ''artifacts/123e4567-e89b-42d3-a456-426614174000.bin'',
        LedgerInsert [] ''artifacts/123e4567-e89b-42d3-a456-426614174000.bin''] \<and>
   fs (snd (main_save_artifact_version json_loads_examples example_env
              (example_request\<lparr>req_name := []\<rparr>) empty_state))
      ''artifacts/123e4567-e89b-42d3-a456-426614174000.bin'' = Some (File ''abc'') \<and>
   events_of empty_state
      (snd (main_save_artifact_version json_loads_examples example_env
              (example_request\<lparr>req_name := []\<rparr>) empty_state))
     = [FileWrite ''artifacts/123e4567-e89b-42d3-a456-426614174000.bin'',
        LedgerInsert [] ''artifacts/123e4567-e89b-42d3-a456-426614174000.bin'']"
  by (simp add: save_accepted [OF example_accepted(3)] insert_called_def events_of_def
      example_archive_path)
     (simp add: example_request_def empty_state_def)

text \<open>
  C9, amended. The name is not validated. A request with the empty name whose upload is
  accepted is processed as any other, in both implementations: its file is written to
  the archive and the \<^verbatim>\<open>INSERT\<close> is called with the empty name for that file.
\<close>

theorem empty_name_not_validated:
  assumes "upload_accepted json_loads e r fname st" and "req_name r = []"
  shows "snd (save_artifact_version json_loads e r st) = insert_called e r fname st \<and>
         snd (main_save_artifact_version json_loads e r st) = insert_called e r fname st \<and>
         fs (insert_called e r fname st) (archive_path e fname) = Some (File (req_content r)) \<and>
         events_of st (insert_called e r fname st)
           = [FileWrite (archive_path e fname), LedgerInsert [] (archive_path e fname)]"
  using save_accepted [OF assms(1)] assms(2)
  by (simp add: insert_called_def events_of_def)

theorem empty_name_not_validated_witness:
  "upload_accepted json_loads_examples example_env (example_request\<lparr>req_name := []\<rparr>)
     ''model.bin'' empty_state \<and>
   req_name (example_request\<lparr>req_name := []\<rparr>) = [] \<and>
   snd (save_artifact_version json_loads_examples example_env
          (example_request\<lparr>req_name := []\<rparr>) empty_state)
     = insert_called example_env (example_request\<lparr>req_name := []\<rparr>) ''model.bin'' empty_state \<and>
   snd (main_save_artifact_version json_loads_examples example_env
          (example_request\<lparr>req_name := []\<rparr>) empty_state)
     = insert_called example_env (example_request\<lparr>req_name := []\<rparr>) ''model.bin'' empty_state \<and>
   fs (insert_called example_env (example_request\<lparr>req_name := []\<rparr>) ''model.bin'' empty_state)
      (archive_path example_env ''model.bin'') = Some (File ''abc'') \<and>
   events_of empty_state
      (insert_called example_env (example_request\<lparr>req_name := []\<rparr>) ''model.bin'' empty_state)
     = [FileWrite (archive_path example_env ''model.bin''),
        LedgerInsert [] (archive_path example_env ''model.bin'')]"
proof -
  have n: "req_name (example_request\<lparr>req_name := []\<rparr>) = []" by simp
  have c: "req_content (example_request\<lparr>req_name := []\<rparr>) = ''abc''"
    by (simp add: example_request_def)
  from empty_name_not_validated [OF example_accepted(3) n] c example_accepted(3)
  show ?thesis by simp
qed

subsection \<open>Paths passed to the ledger\<close>

text \<open>
  C8. The claim says that, for the same base directory and file name, one
  \<^verbatim>\<open>create_version\<close> puts the base directory into the artifact path and the other does
  not, so the two paths differ. At the base directory \<^verbatim>\<open>artifacts\<close> and the file name
  \<^verbatim>\<open>u.bin\<close> both functions call the \<^verbatim>\<open>INSERT\<close> with the path \<^verbatim>\<open>artifacts/u.bin\<close>, and
  both return the same.
\<close>

theorem create_version_paths_differ_counterexample:
  "crud_create_version example_env
      \<lparr>vc_name = ''model-v1'', vc_description = None, vc_metadata = None\<rparr> ''u.bin'' empty_state
     = (Inl (HTTPException 500 DatabaseErrorDuringCreation),
        empty_state\<lparr>trace := [LedgerInsert ''model-v1'' ''artifacts/u.bin'']\<rparr>) \<and>
   versions_create_version example_env
      \<lparr>vc_name = ''model-v1'', vc_description = None, vc_metadata = None\<rparr> ''u.bin''
      ARTIFACTS_DIR empty_state
     = (Inl (HTTPException 500 DatabaseErrorDuringCreation),
        empty_state\<lparr>trace := [LedgerInsert ''model-v1'' ''artifacts/u.bin'']\<rparr>)"
  by (simp add: crud_create_version_refused versions_create_version_refused os_path_join_def
      ARTIFACTS_DIR_def empty_state_def)

text \<open>
  C8, amended. For the base directory \<^verbatim>\<open>artifacts\<close> and any file name that does not begin
  with a slash, the two functions compute the same artifact path, the base directory, a
  slash and the file name, and call the \<^verbatim>\<open>INSERT\<close> with it; they return the same result
  and leave the same state.
\<close>

theorem create_version_same_artifact_path:
  assumes "take 1 artifact_filename \<noteq> ''/''"
  shows "crud_create_version e version artifact_filename st
           = versions_create_version e version artifact_filename ARTIFACTS_DIR st \<and>
         events_of st (snd (crud_create_version e version artifact_filename st))
           = [LedgerInsert (vc_name version) (''artifacts/'' @ artifact_filename)] \<and>
         events_of st (snd (versions_create_version e version artifact_filename ARTIFACTS_DIR st))
           = [LedgerInsert (vc_name version) (''artifacts/'' @ artifact_filename)]"
  using os_path_join_ARTIFACTS_DIR [OF assms]
  by (simp add: crud_create_version_refused versions_create_version_refused events_of_def
      ARTIFACTS_DIR_def)

theorem create_version_same_artifact_path_witness:
  "take 1 ''u.bin'' \<noteq> ''/'' \<and>
   crud_create_version example_env
      \<lparr>vc_name = ''model-v1'', vc_description = None, vc_metadata = None\<rparr> ''u.bin'' empty_state
   = versions_create_version example_env
      \<lparr>vc_name = ''model-v1'', vc_description = None, vc_metadata = None\<rparr> ''u.bin''
      ARTIFACTS_DIR empty_state \<and>
   events_of empty_state
     (snd (crud_create_version example_env
        \<lparr>vc_name = ''model-v1'', vc_description = None, vc_metadata = None\<rparr> ''u.bin''
        empty_state))
   = [LedgerInsert ''model-v1'' ''artifacts/u.bin''] \<and>
   events_of empty_state
     (snd (versions_create_version example_env
        \<lparr>vc_name = ''model-v1'', vc_description = None, vc_metadata = None\<rparr> ''u.bin''
        ARTIFACTS_DIR empty_state))
   = [LedgerInsert ''model-v1'' ''artifacts/u.bin'']"
proof -
  have h: "take 1 ''u.bin'' \<noteq> ''/''" by simp
  from create_version_same_artifact_path [OF h, of example_env
      "\<lparr>vc_name = ''model-v1'', vc_description = None, vc_metadata = None\<rparr>" empty_state] h
  show ?thesis by simp
qed

subsection \<open>The name of the archive file\<close>

lemma splitext_client_extension:
  assumes "CHR ''.'' \<notin> set x" "CHR ''/'' \<notin> set x" "CHR ''/'' \<notin> set stem"
    and "list_ex (\<lambda>c. c \<noteq> CHR ''.'') stem"
  shows "os_path_splitext (stem @ CHR ''.'' # x) = (stem, CHR ''.'' # x)"
proof -
  let ?p = "stem @ CHR ''.'' # x"
  have dot: "rfind ?p (CHR ''.'') = int (length stem)"
    using assms(1) by (rule rfind_last)
  have sep: "rfind ?p (CHR ''/'') = - 1"
    using assms(2,3) by (intro rfind_absent) simp
  from assms(4) obtain i where i: "i < length stem" "stem ! i \<noteq> CHR ''.''"
    by (auto simp: list_ex_iff in_set_conv_nth)
  then have "list_ex (\<lambda>i. ?p ! i \<noteq> CHR ''.'') [0..<length stem]"
    by (auto simp: list_ex_iff nth_append intro!: bexI [where x = i])
  then show ?thesis
    by (simp add: os_path_splitext_def dot sep)
qed

lemma save_file_writes:
  assumes "uuid_text (uuid4 e)" "req_filename r = Some fname"
  shows "set (events_of st (snd (save_artifact_version json_loads e r st)))
           \<subseteq> {FileWrite (archive_path e fname), LedgerInsert (req_name r) (archive_path e fname)}"
    and "set (events_of st (snd (main_save_artifact_version json_loads e r st)))
           \<subseteq> {FileWrite (archive_path e fname), LedgerInsert (req_name r) (archive_path e fname)}"
  by (auto simp: save_artifact_version_outcome [OF assms]
      main_save_artifact_version_outcome [OF assms] events_of_def uploaded_def insert_called_def
      split: io_outcome.splits sum.splits if_splits)

lemma save_file_written:
  assumes "uuid_text (uuid4 e)" "req_filename r = Some fname" "file_io e = IoOk"
    "fs st (archive_path e fname) \<noteq> Some Dir"
  shows "FileWrite (archive_path e fname)
           \<in> set (events_of st (snd (save_artifact_version json_loads e r st)))"
    and "fs (snd (save_artifact_version json_loads e r st)) (archive_path e fname)
           = Some (File (req_content r))"
    and "FileWrite (archive_path e fname)
           \<in> set (events_of st (snd (main_save_artifact_version json_loads e r st)))"
    and "fs (snd (main_save_artifact_version json_loads e r st)) (archive_path e fname)
           = Some (File (req_content r))"
  using assms(3,4)
  by (auto simp: save_artifact_version_outcome [OF assms(1,2)]
      main_save_artifact_version_outcome [OF assms(1,2)] events_of_def uploaded_def
      insert_called_def split: sum.splits)

text \<open>
  C10. In both implementations, for every request with a file name: a file the call
  writes is written at the archive directory, the random token of the surroundings and
  the extension that \<^verbatim>\<open>os.path.splitext\<close> cuts from the client's file name, nowhere else;
  when the disk answers and the path is free that file is written and holds the
  uploaded bytes. The token is no part of the request. The extension is the client's to
  choose: a file name that ends in a dot and any text without dot or slash has that text
  as its extension.
\<close>

theorem archive_filename_uuid_and_client_extension:
  assumes "uuid_text (uuid4 e)" and "req_filename r = Some fname"
  shows "(\<forall>p. FileWrite p \<in> set (events_of st (snd (save_artifact_version json_loads e r st)))
            \<longrightarrow> p = ''artifacts/'' @ uuid4 e @ snd (os_path_splitext fname)) \<and>
         (\<forall>p. FileWrite p \<in> set (events_of st (snd (main_save_artifact_version json_loads e r st)))
            \<longrightarrow> p = ''artifacts/'' @ uuid4 e @ snd (os_path_splitext fname)) \<and>
         (file_io e = IoOk \<and>
          fs st (''artifacts/'' @ uuid4 e @ snd (os_path_splitext fname)) \<noteq> Some Dir \<longrightarrow>
            FileWrite (''artifacts/'' @ uuid4 e @ snd (os_path_splitext fname))
              \<in> set (events_of st (snd (save_artifact_version json_loads e r st))) \<and>
            fs (snd (save_artifact_version json_loads e r st))
               (''artifacts/'' @ uuid4 e @ snd (os_path_splitext fname))
              = Some (File (req_content r)) \<and>
            FileWrite (''artifacts/'' @ uuid4 e @ snd (os_path_splitext fname))
              \<in> set (events_of st (snd (main_save_artifact_version json_loads e r st))) \<and>
            fs (snd (main_save_artifact_version json_loads e r st))
               (''artifacts/'' @ uuid4 e @ snd (os_path_splitext fname))
              = Some (File (req_content r))) \<and>
         (\<forall>stem x.
            fname = stem @ CHR ''.'' # x \<and> CHR ''.'' \<notin> set x \<and> CHR ''/'' \<notin> set x \<and>
            CHR ''/'' \<notin> set stem \<and> list_ex (\<lambda>c. c \<noteq> CHR ''.'') stem
            \<longrightarrow> snd (os_path_splitext fname) = CHR ''.'' # x)"
proof -
  have only: "p = archive_path e fname"
    if "FileWrite p \<in> set (events_of st (snd (save_artifact_version json_loads e r st))) \<or>
        FileWrite p \<in> set (events_of st (snd (main_save_artifact_version json_loads e r st)))"
    for p
    using that save_file_writes [OF assms, of st json_loads] by auto
  have ext: "snd (os_path_splitext fname) = CHR ''.'' # x"
    if "fname = stem @ CHR ''.'' # x" "CHR ''.'' \<notin> set x" "CHR ''/'' \<notin> set x"
      "CHR ''/'' \<notin> set stem" "list_ex (\<lambda>c. c \<noteq> CHR ''.'') stem" for stem x
    using splitext_client_extension [OF that(2-5)] that(1) by simp
  have "(\<forall>p. FileWrite p \<in> set (events_of st (snd (save_artifact_version json_loads e r st)))
            \<longrightarrow> p = archive_path e fname) \<and>
         (\<forall>p. FileWrite p \<in> set (events_of st (snd (main_save_artifact_version json_loads e r st)))
            \<longrightarrow> p = archive_path e fname) \<and>
         (file_io e = IoOk \<and> fs st (archive_path e fname) \<noteq> Some Dir \<longrightarrow>
            FileWrite (archive_path e fname)
              \<in> set (events_of st (snd (save_artifact_version json_loads e r st))) \<and>
            fs (snd (save_artifact_version json_loads e r st)) (archive_path e fname)
              = Some (File (req_content r)) \<and>
            FileWrite (archive_path e fname)
              \<in> set (events_of st (snd (main_save_artifact_version json_loads e r st))) \<and>
            fs (snd (main_save_artifact_version json_loads e r st)) (archive_path e fname)
              = Some (File (req_content r))) \<and>
         (\<forall>stem x.
            fname = stem @ CHR ''.'' # x \<and> CHR ''.'' \<notin> set x \<and> CHR ''/'' \<notin> set x \<and>
            CHR ''/'' \<notin> set stem \<and> list_ex (\<lambda>c. c \<noteq> CHR ''.'') stem
            \<longrightarrow> snd (os_path_splitext fname) = CHR ''.'' # x)"
    using only ext save_file_written [OF assms, of st json_loads] by blast
  then show ?thesis unfolding archive_path_def .
qed

theorem archive_filename_uuid_and_client_extension_witness:
  "uuid_text (uuid4 example_env) \<and>
   req_filename example_request = Some (''model'' @ CHR ''.'' # ''bin'') \<and>
   FileWrite ''artifacts/123e4567-e89b-42d3-a456-426614174000.bin''
     \<in> set (events_of empty_state
              (snd (save_artifact_version json_loads_examples example_env example_request
                      empty_state))) \<and>
   ''artifacts/123e4567-e89b-42d3-a456-426614174000.bin''
     = ''artifacts/'' @ uuid4 example_env @ snd (os_path_splitext ''model.bin'') \<and>
   file_io example_env = IoOk \<and>
   fs empty_state (''artifacts/'' @ uuid4 example_env @ snd (os_path_splitext ''model.bin''))
     \<noteq> Some Dir \<and>
   fs (snd (save_artifact_version json_loads_examples example_env example_request empty_state))
      (''artifacts/'' @ uuid4 example_env @ snd (os_path_splitext ''model.bin''))
     = Some (File ''abc'') \<and>
   fs (snd (main_save_artifact_version json_loads_examples example_env example_request
              empty_state))
      (''artifacts/'' @ uuid4 example_env @ snd (os_path_splitext ''model.bin''))
     = Some (File ''abc'') \<and>
   CHR ''.'' \<notin> set ''bin'' \<and> CHR ''/'' \<notin> set ''bin'' \<and> CHR ''/'' \<notin> set ''model'' \<and>
   list_ex (\<lambda>c. c \<noteq> CHR ''.'') ''model'' \<and>
   snd (os_path_splitext ''model.bin'') = CHR ''.'' # ''bin''"
proof -
  have f: "req_filename example_request = Some ''model.bin''"
    and c: "req_content example_request = ''abc''"
    by (simp_all add: example_request_def)
  have io: "file_io example_env = IoOk" by (simp add: example_env_def)
  have free: "fs empty_state (''artifacts/'' @ uuid4 example_env @ snd (os_path_splitext ''model.bin''))
     \<noteq> Some Dir"
    by (simp add: empty_state_def)
  have p: "''artifacts/123e4567-e89b-42d3-a456-426614174000.bin''
     = ''artifacts/'' @ uuid4 example_env @ snd (os_path_splitext ''model.bin'')"
    using example_archive_path by (simp add: archive_path_def)
  have x: "''model.bin'' = ''model'' @ CHR ''.'' # ''bin'' \<and>
     CHR ''.'' \<notin> set ''bin'' \<and> CHR ''/'' \<notin> set ''bin'' \<and> CHR ''/'' \<notin> set ''model'' \<and>
     list_ex (\<lambda>c. c \<noteq> CHR ''.'') ''model''"
    by simp
  note t = archive_filename_uuid_and_client_extension
             [OF example_uuid f, of empty_state json_loads_examples]
  from t io free have written:
    "FileWrite (''artifacts/'' @ uuid4 example_env @ snd (os_path_splitext ''model.bin''))
       \<in> set (events_of empty_state
              (snd (save_artifact_version json_loads_examples example_env example_request
                      empty_state)))"
    "fs (snd (save_artifact_version json_loads_examples example_env example_request empty_state))
      (''artifacts/'' @ uuid4 example_env @ snd (os_path_splitext ''model.bin''))
     = Some (File (req_content example_request))"
    "fs (snd (main_save_artifact_version json_loads_examples example_env example_request
              empty_state))
      (''artifacts/'' @ uuid4 example_env @ snd (os_path_splitext ''model.bin''))
     = Some (File (req_content example_request))"
    by blast+
  from t x have e: "snd (os_path_splitext ''model.bin'') = CHR ''.'' # ''bin''"
    by blast
  from written(1) p have w: "FileWrite ''artifacts/123e4567-e89b-42d3-a456-426614174000.bin''
     \<in> set (events_of empty_state
              (snd (save_artifact_version json_loads_examples example_env example_request
                      empty_state)))"
    by (simp only:)
  from w written(2,3) c e p io free x example_uuid f show ?thesis
    by (simp only: simp_thms)
qed

subsection \<open>The file before the insert\<close>

lemma fetchrow_insert_keeps_files: "fs (snd (fetchrow_insert e nm descr path meta st)) = fs st"
  by (simp add: fetchrow_insert_def insert_version_def Let_def split: sum.splits)

lemma save_events:
  assumes "uuid_text (uuid4 e)"
  shows "events_of st (snd (save_artifact_version json_loads e r st)) = [] \<or>
         (\<exists>p. events_of st (snd (save_artifact_version json_loads e r st)) = [FileWrite p]) \<or>
         (\<exists>p. events_of st (snd (save_artifact_version json_loads e r st))
                 = [FileWrite p, LedgerInsert (req_name r) p] \<and>
              fs (snd (save_artifact_version json_loads e r st)) p = Some (File (req_content r)))"
    and "events_of st (snd (main_save_artifact_version json_loads e r st)) = [] \<or>
         (\<exists>p. events_of st (snd (main_save_artifact_version json_loads e r st)) = [FileWrite p]) \<or>
         (\<exists>p. events_of st (snd (main_save_artifact_version json_loads e r st))
                 = [FileWrite p, LedgerInsert (req_name r) p] \<and>
              fs (snd (main_save_artifact_version json_loads e r st)) p
                = Some (File (req_content r)))"
proof -
  show "events_of st (snd (save_artifact_version json_loads e r st)) = [] \<or>
         (\<exists>p. events_of st (snd (save_artifact_version json_loads e r st)) = [FileWrite p]) \<or>
         (\<exists>p. events_of st (snd (save_artifact_version json_loads e r st))
                 = [FileWrite p, LedgerInsert (req_name r) p] \<and>
              fs (snd (save_artifact_version json_loads e r st)) p = Some (File (req_content r)))"
  proof (cases "req_filename r")
    case None
    then show ?thesis by (simp add: save_no_filename events_of_same)
  next
    case (Some fname)
    show ?thesis
      by (simp add: save_artifact_version_outcome [OF assms Some] events_of_def uploaded_def
          insert_called_def split: io_outcome.splits sum.splits)
  qed
  show "events_of st (snd (main_save_artifact_version json_loads e r st)) = [] \<or>
         (\<exists>p. events_of st (snd (main_save_artifact_version json_loads e r st)) = [FileWrite p]) \<or>
         (\<exists>p. events_of st (snd (main_save_artifact_version json_loads e r st))
                 = [FileWrite p, LedgerInsert (req_name r) p] \<and>
              fs (snd (main_save_artifact_version json_loads e r st)) p
                = Some (File (req_content r)))"
  proof (cases "req_filename r")
    case None
    then show ?thesis by (simp add: save_no_filename events_of_same)
  next
    case (Some fname)
    show ?thesis
      by (simp add: main_save_artifact_version_outcome [OF assms Some] events_of_def uploaded_def
          insert_called_def split: io_outcome.splits sum.splits)
  qed
qed

lemma save_write_fails:
  assumes "uuid_text (uuid4 e)" "req_filename r = Some fname"
    and "fst (write_file (file_io e)
                (os_path_join ARTIFACTS_DIR (uuid4 e @ snd (os_path_splitext fname)))
                (req_content r) st) = Inl err"
  shows "fst (save_artifact_version json_loads e r st)
           = Inl (HTTPException 500 FailedToSaveArtifactFile)"
    and "fst (main_save_artifact_version json_loads e r st)
           = Inl (HTTPException 500 FailedToSaveVersion)"
    and "versions (snd (save_artifact_version json_loads e r st)) = versions st"
    and "versions (snd (main_save_artifact_version json_loads e r st)) = versions st"
    and "LedgerInsert nm p \<notin> set (events_of st (snd (save_artifact_version json_loads e r st)))"
    and "LedgerInsert nm p
           \<notin> set (events_of st (snd (main_save_artifact_version json_loads e r st)))"
  using assms(3)
  by (auto simp: archive_path_join [OF assms(1)] write_file_archive [OF assms(1)]
      save_artifact_version_outcome [OF assms(1,2)]
      main_save_artifact_version_outcome [OF assms(1,2)] events_of_def
      split: if_splits io_outcome.splits)

text \<open>
  C4. In both implementations, within every create-version call: if the \<^verbatim>\<open>INSERT\<close> is
  called at all, then what the call did is to write one file and afterwards call the
  \<^verbatim>\<open>INSERT\<close> once, for the path of that file, and the archive holds the uploaded bytes at
  that path. If the file write fails the call ends with the error of the storage, status
  500, the ledger is as it was, and the \<^verbatim>\<open>INSERT\<close> is not called.
\<close>

theorem file_write_precedes_ledger_insert:
  assumes "uuid_text (uuid4 e)"
  shows "(\<forall>nm p. LedgerInsert nm p
                  \<in> set (events_of st (snd (save_artifact_version json_loads e r st))) \<longrightarrow>
            events_of st (snd (save_artifact_version json_loads e r st))
              = [FileWrite p, LedgerInsert nm p] \<and>
            fs (snd (save_artifact_version json_loads e r st)) p = Some (File (req_content r))) \<and>
         (\<forall>nm p. LedgerInsert nm p
                  \<in> set (events_of st (snd (main_save_artifact_version json_loads e r st))) \<longrightarrow>
            events_of st (snd (main_save_artifact_version json_loads e r st))
              = [FileWrite p, LedgerInsert nm p] \<and>
            fs (snd (main_save_artifact_version json_loads e r st)) p
              = Some (File (req_content r))) \<and>
         (\<forall>fname err.
            req_filename r = Some fname \<and>
            fst (write_file (file_io e)
                   (os_path_join ARTIFACTS_DIR (uuid4 e @ snd (os_path_splitext fname)))
                   (req_content r) st) = Inl err \<longrightarrow>
            fst (save_artifact_version json_loads e r st)
              = Inl (HTTPException 500 FailedToSaveArtifactFile) \<and>
            fst (main_save_artifact_version json_loads e r st)
              = Inl (HTTPException 500 FailedToSaveVersion) \<and>
            versions (snd (save_artifact_version json_loads e r st)) = versions st \<and>
            versions (snd (main_save_artifact_version json_loads e r st)) = versions st \<and>
            (\<forall>nm p. LedgerInsert nm p
                      \<notin> set (events_of st (snd (save_artifact_version json_loads e r st)))) \<and>
            (\<forall>nm p. LedgerInsert nm p
                      \<notin> set (events_of st (snd (main_save_artifact_version json_loads e r st)))))"
proof -
  have one: "events_of st (snd (save_artifact_version json_loads e r st))
              = [FileWrite p, LedgerInsert nm p] \<and>
            fs (snd (save_artifact_version json_loads e r st)) p = Some (File (req_content r))"
    if "LedgerInsert nm p \<in> set (events_of st (snd (save_artifact_version json_loads e r st)))"
    for nm p
    using that save_events(1) [OF assms, of st json_loads r] by auto
  have two: "events_of st (snd (main_save_artifact_version json_loads e r st))
              = [FileWrite p, LedgerInsert nm p] \<and>
            fs (snd (main_save_artifact_version json_loads e r st)) p
              = Some (File (req_content r))"
    if "LedgerInsert nm p
          \<in> set (events_of st (snd (main_save_artifact_version json_loads e r st)))"
    for nm p
    using that save_events(2) [OF assms, of st json_loads r] by auto
  from one two save_write_fails [OF assms, where json_loads = json_loads and r = r and st = st]
  show ?thesis by blast
qed

theorem file_write_precedes_ledger_insert_witness:
  "uuid_text (uuid4 example_env) \<and>
   LedgerInsert ''model-v1'' ''artifacts/123e4567-e89b-42d3-a456-426614174000.bin''
     \<in> set (events_of empty_state
              (snd (save_artifact_version json_loads_examples example_env example_request
                      empty_state))) \<and>
   events_of empty_state
     (snd (save_artifact_version json_loads_examples example_env example_request empty_state))
     = [FileWrite ''artifacts/123e4567-e89b-42d3-a456-426614174000.bin'',
        LedgerInsert ''model-v1'' ''artifacts/123e4567-e89b-42d3-a456-426614174000.bin''] \<and>
   fs (snd (save_artifact_version json_loads_examples example_env example_request empty_state))
      ''artifacts/123e4567-e89b-42d3-a456-426614174000.bin'' = Some (File ''abc'') \<and>
   LedgerInsert ''model-v1'' ''artifacts/123e4567-e89b-42d3-a456-426614174000.bin''
     \<in> set (events_of empty_state
              (snd (main_save_artifact_version json_loads_examples example_env example_request
                      empty_state))) \<and>
   events_of empty_state
     (snd (main_save_artifact_version json_loads_examples example_env example_request
             empty_state))
     = [FileWrite ''artifacts/123e4567-e89b-42d3-a456-426614174000.bin'',
        LedgerInsert ''model-v1'' ''artifacts/123e4567-e89b-42d3-a456-426614174000.bin''] \<and>
   fs (snd (main_save_artifact_version json_loads_examples example_env example_request
              empty_state))
      ''artifacts/123e4567-e89b-42d3-a456-426614174000.bin'' = Some (File ''abc'') \<and>
   uuid_text (uuid4 (example_env\<lparr>file_io := OpenFails\<rparr>)) \<and>
   req_filename example_request = Some ''model.bin'' \<and>
   fst (write_file (file_io (example_env\<lparr>file_io := OpenFails\<rparr>))
          (os_path_join ARTIFACTS_DIR
             (uuid4 (example_env\<lparr>file_io := OpenFails\<rparr>) @ snd (os_path_splitext ''model.bin'')))
          (req_content example_request) empty_state) = Inl OSError \<and>
   fst (save_artifact_version json_loads_examples (example_env\<lparr>file_io := OpenFails\<rparr>)
          example_request empty_state)
     = Inl (HTTPException 500 FailedToSaveArtifactFile) \<and>
   fst (main_save_artifact_version json_loads_examples (example_env\<lparr>file_io := OpenFails\<rparr>)
          example_request empty_state)
     = Inl (HTTPException 500 FailedToSaveVersion) \<and>
   versions (snd (save_artifact_version json_loads_examples
                    (example_env\<lparr>file_io := OpenFails\<rparr>) example_request empty_state))
     = versions empty_state \<and>
   versions (snd (main_save_artifact_version json_loads_examples
                    (example_env\<lparr>file_io := OpenFails\<rparr>) example_request empty_state))
     = versions empty_state \<and>
   LedgerInsert ''model-v1'' ''artifacts/123e4567-e89b-42d3-a456-426614174000.bin''
     \<notin> set (events_of empty_state
              (snd (save_artifact_version json_loads_examples
                      (example_env\<lparr>file_io := OpenFails\<rparr>) example_request empty_state))) \<and>
   LedgerInsert ''model-v1'' ''artifacts/123e4567-e89b-42d3-a456-426614174000.bin''
     \<notin> set (events_of empty_state
              (snd (main_save_artifact_version json_loads_examples
                      (example_env\<lparr>file_io := OpenFails\<rparr>) example_request empty_state)))"
proof -
  let ?p = "''artifacts/123e4567-e89b-42d3-a456-426614174000.bin''"
  let ?e = "example_env\<lparr>file_io := OpenFails\<rparr>"
  have c: "req_content example_request = ''abc''" "req_name example_request = ''model-v1''"
    and f: "req_filename example_request = Some ''model.bin''"
    by (simp_all add: example_request_def)
  have a: "LedgerInsert ''model-v1'' ?p
     \<in> set (events_of empty_state
              (snd (save_artifact_version json_loads_examples example_env example_request
                      empty_state)))"
    "LedgerInsert ''model-v1'' ?p
     \<in> set (events_of empty_state
              (snd (main_save_artifact_version json_loads_examples example_env example_request
                      empty_state)))"
    by (simp_all add: save_accepted [OF example_accepted(1)] insert_called_def events_of_def
        example_archive_path c)
  have u: "uuid_text (uuid4 ?e)" using example_uuid by simp
  have w: "fst (write_file (file_io ?e)
          (os_path_join ARTIFACTS_DIR (uuid4 ?e @ snd (os_path_splitext ''model.bin'')))
          (req_content example_request) empty_state) = Inl OSError"
    by (simp add: write_file_def)
  note ok = file_write_precedes_ledger_insert
              [OF example_uuid, of empty_state json_loads_examples example_request]
  note failed = file_write_precedes_ledger_insert
              [OF u, of empty_state json_loads_examples example_request]
  from ok a have first:
    "events_of empty_state
       (snd (save_artifact_version json_loads_examples example_env example_request empty_state))
     = [FileWrite ?p, LedgerInsert ''model-v1'' ?p]"
    "fs (snd (save_artifact_version json_loads_examples example_env example_request empty_state))
      ?p = Some (File (req_content example_request))"
    "events_of empty_state
       (snd (main_save_artifact_version json_loads_examples example_env example_request
               empty_state))
     = [FileWrite ?p, LedgerInsert ''model-v1'' ?p]"
    "fs (snd (main_save_artifact_version json_loads_examples example_env example_request
                empty_state))
      ?p = Some (File (req_content example_request))"
    by blast+
  from failed f w have second:
    "fst (save_artifact_version json_loads_examples ?e example_request empty_state)
     = Inl (HTTPException 500 FailedToSaveArtifactFile)"
    "fst (main_save_artifact_version json_loads_examples ?e example_request empty_state)
     = Inl (HTTPException 500 FailedToSaveVersion)"
    "versions (snd (save_artifact_version json_loads_examples ?e example_request empty_state))
     = versions empty_state"
    "versions (snd (main_save_artifact_version json_loads_examples ?e example_request
                      empty_state))
     = versions empty_state"
    "LedgerInsert ''model-v1'' ?p
     \<notin> set (events_of empty_state
              (snd (save_artifact_version json_loads_examples ?e example_request empty_state)))"
    "LedgerInsert ''model-v1'' ?p
     \<notin> set (events_of empty_state
              (snd (main_save_artifact_version json_loads_examples ?e example_request
                      empty_state)))"
    by blast+
  from first [unfolded c] second a u f w example_uuid show ?thesis
    by (simp only: simp_thms)
qed

subsection \<open>Listing\<close>

lemma Version_created_at: "Version row = Inr v \<Longrightarrow> r_created_at row = Some (v_created_at v)"
  by (auto simp: Version_def split: option.splits)

lemma Version_list_readable:
  "list_all readable rows \<Longrightarrow>
   \<exists>vs. Version_list rows = Inr vs \<and> map Version rows = map Inr vs \<and>
        map r_created_at rows = map (\<lambda>v. Some (v_created_at v)) vs"
proof (induction rows)
  case Nil
  then show ?case by simp
next
  case (Cons row rows)
  then obtain vs where vs: "Version_list rows = Inr vs" "map Version rows = map Inr vs"
    "map r_created_at rows = map (\<lambda>v. Some (v_created_at v)) vs"
    by auto
  from Cons.prems obtain v where v: "Version row = Inr v"
    by (auto simp: readable_def split: sum.splits)
  from v vs Version_created_at [OF v] show ?case by simp
qed

lemma Version_list_unreadable:
  "\<not> list_all readable rows \<Longrightarrow> \<exists>err. Version_list rows = Inl err"
proof (induction rows)
  case Nil
  then show ?case by simp
next
  case (Cons row rows)
  then show ?case
    by (cases "Version row"; cases "Version_list rows") (auto simp: readable_def)
qed

lemma listing_unreadable_row:
  assumes "\<not> list_all readable (versions st)"
  shows "get_versions fails st = Inl (HTTPException 500 DatabaseErrorDuringListing)"
proof -
  let ?rows = "sort_key (\<lambda>row. map_option uminus (r_created_at row)) (versions st)"
  from assms have "\<not> list_all readable ?rows" by (simp add: list_all_iff)
  from Version_list_unreadable [OF this] show ?thesis
    by (auto simp: get_versions_def)
qed

lemma strict_when_distinct:
  assumes "created_at_descending rows" "distinct (map v_created_at rows)"
  shows "newest_first_ties_by_id rows"
  using assms
  unfolding created_at_descending_def newest_first_ties_by_id_def
proof (induction rows)
  case Nil
  then show ?case by simp
next
  case (Cons r rows)
  have "newer r x" if "x \<in> set rows" for x
  proof -
    from Cons.prems(1) that have "v_created_at x \<le> v_created_at r" by simp
    moreover from Cons.prems(2) that have "v_created_at x \<noteq> v_created_at r"
      by (metis distinct.simps(2) image_eqI list.simps(9) set_map)
    ultimately show ?thesis by (simp add: newer_def)
  qed
  with Cons show ?case by simp
qed

lemma Version_example_row:
  "Version example_row = Inr example_version"
  "Version (example_row\<lparr>r_id := 2, r_name := ''model-v2''\<rparr>)
     = Inr (example_version\<lparr>v_id := 2, v_name := ''model-v2''\<rparr>)"
  by (simp_all add: Version_def example_row_def example_version_def)

text \<open>
  C5. The claim says a listing is strictly descending by \<^verbatim>\<open>created_at\<close> with ties broken
  by descending \<^verbatim>\<open>id\<close>. The statement orders by \<^verbatim>\<open>created_at\<close> alone: on a ledger
  whose rows 1 and 2 carry the same timestamp the listing is row 1, then row 2.
\<close>

theorem listing_ties_by_id_counterexample:
  "get_versions False tied_state
     = Inr [example_version, example_version\<lparr>v_id := 2, v_name := ''model-v2''\<rparr>] \<and>
   \<not> newest_first_ties_by_id
       [example_version, example_version\<lparr>v_id := 2, v_name := ''model-v2''\<rparr>]"
proof -
  have "sort_key (\<lambda>row. map_option uminus (r_created_at row)) (versions tied_state)
          = [example_row, example_row\<lparr>r_id := 2, r_name := ''model-v2''\<rparr>]"
    by (simp add: tied_state_def example_row_def)
  then show ?thesis
    by (simp add: get_versions_def Version_example_row)
       (simp add: example_version_def newest_first_ties_by_id_def newer_def)
qed

text \<open>
  C5, amended. For every ledger state whose rows can be read as version records (each
  with its \<^verbatim>\<open>created_at\<close> and with no metadata), a listing (the database answering) is
  the whole sequence of the records of the ledger, each once, in descending order of
  \<^verbatim>\<open>created_at\<close>; where no two rows share a \<^verbatim>\<open>created_at\<close>, that order is strict and so
  the one the claim describes.
\<close>

theorem listing_created_at_descending:
  assumes "\<not> fails" and "list_all readable (versions st)"
  shows "\<exists>rows. get_versions fails st = Inr rows \<and>
           mset (map Inr rows) = mset (map Version (versions st)) \<and>
           created_at_descending rows \<and>
           (distinct (map r_created_at (versions st)) \<longrightarrow> newest_first_ties_by_id rows)"
proof -
  let ?key = "\<lambda>row. map_option uminus (r_created_at row)"
  let ?rows = "sort_key ?key (versions st)"
  have m: "mset ?rows = mset (versions st)" by simp
  from assms(2) have "list_all readable ?rows" by (simp add: list_all_iff)
  from Version_list_readable [OF this]
  obtain vs where vs: "Version_list ?rows = Inr vs" "map Version ?rows = map Inr vs"
    "map r_created_at ?rows = map (\<lambda>v. Some (v_created_at v)) vs"
    by blast
  have g: "get_versions fails st = Inr vs"
    using assms(1) vs(1) by (simp add: get_versions_def)
  have all: "mset (map Inr vs) = mset (map Version (versions st))"
  proof -
    have "mset (map Version ?rows) = mset (map Version (versions st))"
      using m by (metis mset_map)
    with vs(2) show ?thesis by simp
  qed
  have keys: "map ?key ?rows = map (\<lambda>v. Some (- v_created_at v)) vs"
  proof -
    have "map ?key ?rows = map (map_option uminus) (map r_created_at ?rows)"
      by (simp only: map_map comp_def)
    also have "\<dots> = map (map_option uminus) (map (\<lambda>v. Some (v_created_at v)) vs)"
      by (simp only: vs(3))
    finally show ?thesis by (simp add: comp_def)
  qed
  have d: "created_at_descending vs"
  proof -
    have "sorted (map ?key ?rows)" by (rule sorted_sort_key)
    then have "sorted (map (\<lambda>v. Some (- v_created_at v)) vs)" by (simp only: keys)
    then show ?thesis
      by (simp add: created_at_descending_def sorted_map sorted_wrt_iff_nth_less)
  qed
  have "distinct (map v_created_at vs)" if "distinct (map r_created_at (versions st))"
  proof -
    have "mset (map r_created_at ?rows) = mset (map r_created_at (versions st))"
      using m by (metis mset_map)
    then have "distinct (map r_created_at ?rows)"
      using that by (metis mset_eq_imp_distinct_iff)
    then have "distinct (map Some (map v_created_at vs))"
      by (simp add: vs(3) comp_def)
    then show ?thesis using distinct_map [of Some "map v_created_at vs"] by blast
  qed
  then have "distinct (map r_created_at (versions st)) \<longrightarrow> newest_first_ties_by_id vs"
    using strict_when_distinct [OF d] by blast
  with g all d show ?thesis by blast
qed

theorem listing_created_at_descending_witness:
  "\<not> False \<and>
   list_all readable (versions three_state) \<and>
   distinct (map r_created_at (versions three_state)) \<and>
   get_versions False three_state
     = Inr [example_version\<lparr>v_id := 3, v_name := ''model-v3'', v_created_at := 30\<rparr>,
            example_version\<lparr>v_id := 2, v_name := ''model-v2'', v_created_at := 20\<rparr>,
            example_version\<lparr>v_created_at := 10\<rparr>] \<and>
   created_at_descending
     [example_version\<lparr>v_id := 3, v_name := ''model-v3'', v_created_at := 30\<rparr>,
      example_version\<lparr>v_id := 2, v_name := ''model-v2'', v_created_at := 20\<rparr>,
      example_version\<lparr>v_created_at := 10\<rparr>] \<and>
   newest_first_ties_by_id
     [example_version\<lparr>v_id := 3, v_name := ''model-v3'', v_created_at := 30\<rparr>,
      example_version\<lparr>v_id := 2, v_name := ''model-v2'', v_created_at := 20\<rparr>,
      example_version\<lparr>v_created_at := 10\<rparr>]"
proof -
  have r: "list_all readable (versions three_state)"
    by (simp add: three_state_def readable_def Version_def example_row_def)
  have d: "distinct (map r_created_at (versions three_state))"
    by (simp add: three_state_def)
  have s: "sort_key (\<lambda>row. map_option uminus (r_created_at row)) (versions three_state)
     = [example_row\<lparr>r_id := 3, r_name := ''model-v3'', r_created_at := Some 30\<rparr>,
        example_row\<lparr>r_id := 2, r_name := ''model-v2'', r_created_at := Some 20\<rparr>,
        example_row\<lparr>r_created_at := Some 10\<rparr>]"
    by (simp add: three_state_def)
  have g: "get_versions False three_state
     = Inr [example_version\<lparr>v_id := 3, v_name := ''model-v3'', v_created_at := 30\<rparr>,
            example_version\<lparr>v_id := 2, v_name := ''model-v2'', v_created_at := 20\<rparr>,
            example_version\<lparr>v_created_at := 10\<rparr>]"
    by (simp add: get_versions_def s) (simp add: Version_def example_row_def example_version_def)
  from listing_created_at_descending [OF _ r, of False] d g r show ?thesis
    by simp
qed

subsection \<open>Restoring\<close>


lemma get_version_present:
  assumes "find (\<lambda>row. r_id row = version_id) (versions st) = Some row"
  shows "get_version False version_id st =
     (if readable row \<and> encode_int4 version_id = Inr version_id
      then map_sum id Some (Version row)
      else Inl (HTTPException 500 DatabaseErrorDuringRetrieval))"
  using assms
  by (auto simp: get_version_def encode_int4_def readable_def split: sum.splits)




text \<open>
  C2. The claim says that restoring a version whose artifact is in the archive succeeds,
  twice in a row, and leaves that artifact alone in the active directory. In the package
  (\<^verbatim>\<open>app/services/artifact_storage.py\<close>) the restore never gets that far, and no more
  does \<^verbatim>\<open>crud.restore_version\<close>: for every version the ledger holds, the database
  answering, both endpoints answer 500 and the state, the active directory with it, is
  what it was. Where the row can be read and its id bound, the error is the one of the
  restore, which fails on \<^verbatim>\<open>os.get_event_loop\<close> in the package and on \<^verbatim>\<open>conn.loop\<close> in
  \<^verbatim>\<open>crud.py\<close>; otherwise it is the one of the lookup.
\<close>

theorem restore_artifact_file_never_restores:
  assumes "find (\<lambda>row. r_id row = version_id) (versions st) = Some row"
    and "\<not> query_fails e"
  shows "restore_artifact_version e version_id st
           = (Inl (HTTPException 500
                    (if readable row \<and> encode_int4 version_id = Inr version_id
                     then FailedToRestoreArtifact else DatabaseErrorDuringRetrieval)), st) \<and>
         main_restore_artifact_version e version_id st
           = (Inl (HTTPException 500
                    (if readable row \<and> encode_int4 version_id = Inr version_id
                     then FailedToRestoreArtifact else DatabaseErrorDuringRetrieval)), st)"
  using assms(2)
  by (auto simp: restore_artifact_version_def restore_artifact_file_def os_get_event_loop_def
      main_restore_artifact_version_def crud_restore_version_def conn_loop_def
      get_version_present [OF assms(1)] readable_def split: sum.splits)

theorem restore_artifact_file_never_restores_witness:
  "find (\<lambda>row. r_id row = 1) (versions restore_state) = Some example_row \<and>
   \<not> query_fails restore_env_ok \<and>
   readable example_row \<and> encode_int4 1 = Inr 1 \<and>
   fs restore_state (r_artifact_path example_row) = Some (File ''abc'') \<and>
   restore_artifact_version restore_env_ok 1 restore_state
     = (Inl (HTTPException 500 FailedToRestoreArtifact), restore_state) \<and>
   main_restore_artifact_version restore_env_ok 1 restore_state
     = (Inl (HTTPException 500 FailedToRestoreArtifact), restore_state) \<and>
   fs restore_state ''current_active_artifact/old.bin'' = Some (File ''old'') \<and>
   find (\<lambda>row. r_id row = 1) (versions annotated_state)
     = Some (example_row\<lparr>r_metadata := Some ''{}''\<rparr>) \<and>
   \<not> readable (example_row\<lparr>r_metadata := Some ''{}''\<rparr>) \<and>
   restore_artifact_version restore_env_ok 1 annotated_state
     = (Inl (HTTPException 500 DatabaseErrorDuringRetrieval), annotated_state) \<and>
   main_restore_artifact_version restore_env_ok 1 annotated_state
     = (Inl (HTTPException 500 DatabaseErrorDuringRetrieval), annotated_state)"
proof -
  have h: "find (\<lambda>row. r_id row = 1) (versions restore_state) = Some example_row"
    "find (\<lambda>row. r_id row = 1) (versions annotated_state)
       = Some (example_row\<lparr>r_metadata := Some ''{}''\<rparr>)"
    by (simp_all add: restore_state_def annotated_state_def example_row_def)
  have q: "\<not> query_fails restore_env_ok" by (simp add: restore_env_ok_def)
  have r: "readable example_row" "encode_int4 1 = Inr 1"
    "\<not> readable (example_row\<lparr>r_metadata := Some ''{}''\<rparr>)"
    by (simp_all add: readable_def Version_def example_row_def encode_int4_def)
  have f: "fs restore_state (r_artifact_path example_row) = Some (File ''abc'')"
    "fs restore_state ''current_active_artifact/old.bin'' = Some (File ''old'')"
    by (simp_all add: restore_state_def example_row_def)
  from restore_artifact_file_never_restores [OF h(1) q]
       restore_artifact_file_never_restores [OF h(2) q] h q r f
  show ?thesis by simp
qed

subsection \<open>Logging in\<close>

text \<open>
  What both implementations share: credentials that match no stored user are answered
  with 401. And what the package does with credentials that match: 200 with a bearer
  token.
\<close>

lemma login_bad_credentials:
  assumes "\<not> user_query_fails e"
    and "\<forall>u. find (\<lambda>u. username u = form_username form_data) (users st) = Some u
           \<longrightarrow> \<not> verify_password (form_password form_data) (hashed_password u)"
  shows "login_for_access_token verify_password jwt_encode e form_data st
           = Inl (HTTPException 401 IncorrectUsernameOrPassword)"
    and "main_login_for_access_token verify_password auth_create_access_token e form_data st
           = Inl (HTTPException 401 IncorrectUsernameOrPassword)"
  using assms
  by (auto simp: login_for_access_token_def main_login_for_access_token_def
      get_user_by_username_def split: option.splits)

lemma login_good_credentials:
  assumes "\<not> user_query_fails e"
    and "find (\<lambda>u. username u = form_username form_data) (users st) = Some user"
    and "verify_password (form_password form_data) (hashed_password user)"
  shows "\<exists>t. login_for_access_token verify_password jwt_encode e form_data st
               = Inr \<lparr>access_token = t, token_type = ''bearer''\<rparr>"
  using assms
  by (simp add: login_for_access_token_def get_user_by_username_def)

text \<open>
  C7. The claim says \<^verbatim>\<open>POST /token\<close> with matching credentials is answered with 200 and
  a bearer token. In \<^verbatim>\<open>main.py\<close> the line after the check of the credentials calls
  \<^verbatim>\<open>timedelta\<close>, a name the module never imports: for every stored user and matching
  password, the database answering, the endpoint raises \<^verbatim>\<open>NameError\<close>, which the
  framework answers with 500.
\<close>

theorem main_login_good_credentials_name_error:
  assumes "\<not> user_query_fails e"
    and "find (\<lambda>u. username u = form_username form_data) (users st) = Some user"
    and "verify_password (form_password form_data) (hashed_password user)"
  shows "main_login_for_access_token verify_password auth_create_access_token e form_data st
           = Inl (NameError ''timedelta'') \<and>
         status_of (NameError ''timedelta'') = 500"
proof -
  have "main_py_name ''timedelta'' = Inl (NameError ''timedelta'')"
    by (simp add: main_py_name_def main_py_names_def)
  with assms show ?thesis
    by (simp add: main_login_for_access_token_def get_user_by_username_def)
qed

theorem main_login_good_credentials_name_error_witness:
  "\<not> user_query_fails login_env_example \<and>
   find (\<lambda>u. username u = form_username \<lparr>form_username = ''alice'', form_password = ''wonderland''\<rparr>)
     (users login_state) = Some alice \<and>
   verify_example (form_password \<lparr>form_username = ''alice'', form_password = ''wonderland''\<rparr>)
     (hashed_password alice) \<and>
   main_login_for_access_token verify_example auth_token_example login_env_example
     \<lparr>form_username = ''alice'', form_password = ''wonderland''\<rparr> login_state
     = Inl (NameError ''timedelta'') \<and>
   login_for_access_token verify_example encode_example login_env_example
     \<lparr>form_username = ''alice'', form_password = ''wonderland''\<rparr> login_state
     = Inr \<lparr>access_token = ''jwt:alice'', token_type = ''bearer''\<rparr>"
proof -
  let ?form = "\<lparr>form_username = ''alice'', form_password = ''wonderland''\<rparr>"
  have h: "\<not> user_query_fails login_env_example"
    "find (\<lambda>u. username u = form_username ?form) (users login_state) = Some alice"
    "verify_example (form_password ?form) (hashed_password alice)"
    by (simp_all add: login_env_example_def login_state_def alice_def verify_example_def)
  have app: "login_for_access_token verify_example encode_example login_env_example ?form login_state
     = Inr \<lparr>access_token = ''jwt:alice'', token_type = ''bearer''\<rparr>"
    using h
    by (simp add: login_for_access_token_def get_user_by_username_def create_access_token_def
        encode_example_def alice_def)
  from main_login_good_credentials_name_error
    [where verify_password = verify_example and auth_create_access_token = auth_token_example, OF h]
    h app
  show ?thesis by simp
qed

end
